theory Spec2Isabelle
  imports Main
begin

section \<open>Data model of the sync\_update engine (src/tools/sync-update.ts)\<close>

text \<open>
  The operation kind of a validated file operation is one of the three strings
  \<^verbatim>\<open>'add' | 'modify' | 'delete'\<close>; raw (unvalidated) records carry optional strings,
  as the handler receives them from the tool layer.
\<close>

datatype op_kind = Add | Modify | Delete

record FileOperation =
  path :: string
  content :: "string option"
  operation :: op_kind
  sha :: "string option"

record RawFile =
  r_path :: "string option"
  r_content :: "string option"
  r_operation :: "string option"
  r_sha :: "string option"

record RemoteFileInfo =
  rf_sha :: string
  rf_content :: string
  rf_path :: string

text \<open>JavaScript truthiness of an optional string: \<^verbatim>\<open>undefined\<close> and the empty string are falsy.\<close>

definition falsy :: "string option \<Rightarrow> bool" where
  "falsy s = (case s of None \<Rightarrow> True | Some v \<Rightarrow> v = [])"

text \<open>\<^verbatim>\<open>x || d\<close> on an optional string.\<close>

definition or_default :: "string option \<Rightarrow> string \<Rightarrow> string" where
  "or_default s d = (case s of None \<Rightarrow> d | Some v \<Rightarrow> if v = [] then d else v)"

text \<open>\<^verbatim>\<open>s.startsWith(t)\<close> and \<^verbatim>\<open>s.includes(t)\<close>.\<close>

definition startsWith :: "string \<Rightarrow> string \<Rightarrow> bool" where
  "startsWith s t = (take (length t) s = t)"

fun includes_str :: "string \<Rightarrow> string \<Rightarrow> bool" where
  "includes_str [] t = (t = [])"
| "includes_str (c # cs) t = (startsWith (c # cs) t \<or> includes_str cs t)"

subsection \<open>Errors (src/utils/error-handling.ts)\<close>

datatype ErrorCode =
  VALIDATION_ERROR | NOT_FOUND | UNAUTHORIZED | EXTERNAL_API_ERROR | RATE_LIMITED | INTERNAL_ERROR

text \<open>
  What a \<^verbatim>\<open>throw\<close> inside the handler can carry: a plain \<^verbatim>\<open>Error\<close> with its message,
  an \<^verbatim>\<open>AppError\<close> with its code and message, or a \<^verbatim>\<open>ZodError\<close> with the messages of its
  issues. The handler itself only ever lets an \<^verbatim>\<open>AppError\<close> out.
\<close>

datatype thrown = PlainError string | AppErr ErrorCode string | ZodError "string list"

datatype AppError = AppError (code: ErrorCode) (msg: string)

fun error_message :: "thrown \<Rightarrow> string" where
  "error_message (PlainError m) = m"
| "error_message (AppErr c m) = m"
| "error_message (ZodError ms) = concat ms"

subsection \<open>Operation Normalizer: validateAndNormalizeFiles\<close>

fun parse_kind :: "string \<Rightarrow> op_kind" where
  "parse_kind s = (if s = ''modify'' then Modify else if s = ''delete'' then Delete else Add)"

fun kind_name :: "op_kind \<Rightarrow> string" where
  "kind_name Add = ''add''"
| "kind_name Modify = ''modify''"
| "kind_name Delete = ''delete''"

definition normalize_path :: "string \<Rightarrow> string" where
  "normalize_path p = map (\<lambda>c. if c = CHR 0x5C then CHR ''/'' else c) p"

definition validate_file :: "RawFile \<Rightarrow> thrown + FileOperation" where
  "validate_file file =
     (if falsy (r_path file) then Inl (PlainError ''File path is required'')
      else
        let p = or_default (r_path file) [];
            operation = or_default (r_operation file) ''add''
        in
          if operation \<notin> set [''add'', ''modify'', ''delete''] then
            Inl (PlainError (''Invalid operation: '' @ operation @ ''. Must be add, modify, or delete''))
          else if (operation = ''add'' \<or> operation = ''modify'') \<and> falsy (r_content file) then
            Inl (PlainError (''Content is required for '' @ operation @ '' operation on file: '' @ p))
          else
            let normalizedPath = normalize_path p in
              if includes_str normalizedPath ''..'' \<or> startsWith normalizedPath ''/'' then
                Inl (AppErr VALIDATION_ERROR (''Invalid file path: '' @ p))
              else
                Inr \<lparr> path = normalizedPath, content = r_content file,
                      operation = parse_kind operation, sha = r_sha file \<rparr>)"

text \<open>\<^verbatim>\<open>files.map(...)\<close>: left to right, the first throw aborts the whole map.\<close>

fun validateAndNormalizeFiles :: "RawFile list \<Rightarrow> thrown + FileOperation list" where
  "validateAndNormalizeFiles [] = Inr []"
| "validateAndNormalizeFiles (file # files) =
     (case validate_file file of
        Inl e \<Rightarrow> Inl e
      | Inr f \<Rightarrow> (case validateAndNormalizeFiles files of
                    Inl e \<Rightarrow> Inl e
                  | Inr fs \<Rightarrow> Inr (f # fs)))"

subsection \<open>Strategy Selector: determineStrategy\<close>

definition determineStrategy :: "string \<Rightarrow> FileOperation list \<Rightarrow> string" where
  "determineStrategy requestedStrategy files =
     (if requestedStrategy \<noteq> ''auto'' then requestedStrategy
      else if length files = 1 then ''individual''
      else
        let hasComplexOperations = list_ex (\<lambda>f. operation f = Delete) files
        in if hasComplexOperations then ''individual'' else ''batch'')"

subsection \<open>The content store as the engine sees it\<close>

text \<open>
  Every network call of the engine is a \<^verbatim>\<open>fetch\<close> against the contents API of one
  repository. A request is kept in structured form: the endpoint (the URL prefix
  \<^verbatim>\<open>${baseUrl}/api/v1/repos/${owner}/${repository}/contents\<close> and the token of the
  \<^verbatim>\<open>Authorization\<close> header), the path appended to it, and the fields of the JSON body.
  A body field that is \<^verbatim>\<open>undefined\<close> (omitted by \<^verbatim>\<open>JSON.stringify\<close>) is \<open>None\<close>.
  The path is interpolated into the URL as it is, without any encoding: which remote file
  a path addresses is decided on the other side.
\<close>

text \<open>
  File content travels in a base64 envelope, made and opened by the platform's
  \<^verbatim>\<open>Buffer\<close>: \<open>to_base64\<close> is \<^verbatim>\<open>Buffer.from(s, 'utf8').toString('base64')\<close>, \<open>from_base64\<close> is
  \<^verbatim>\<open>Buffer.from(t, 'base64').toString('utf8')\<close>. The two are a parameter of the engine;
  nothing is assumed about them, in particular not that opening the envelope gives back
  the string that was put in.
\<close>

record Platform =
  to_base64 :: "string \<Rightarrow> string"
  from_base64 :: "string \<Rightarrow> string"

record Endpoint =
  contents_url :: string
  auth_token :: string

datatype batch_kind = BCreate | BUpdate | BDelete

record BatchFile =
  b_path :: string
  b_operation :: batch_kind
  b_content :: "string option"
  b_sha :: "string option"

datatype request =
    GetContents Endpoint string string
  | CreateFile Endpoint string string string string
  | UpdateFile Endpoint string string string string "string option"
  | DeleteFile Endpoint string string string "string option"
  | BatchCommit Endpoint "BatchFile list" string string

text \<open>
  \<open>GetContents e p ref\<close> is \<^verbatim>\<open>GET e/p?ref=ref\<close>; \<open>CreateFile e p content message branch\<close> is
  \<^verbatim>\<open>POST e/p\<close>; \<open>UpdateFile e p content message branch sha\<close> is \<^verbatim>\<open>PUT e/p\<close>;
  \<open>DeleteFile e p message branch sha\<close> is \<^verbatim>\<open>DELETE e/p\<close>; \<open>BatchCommit e files message branch\<close>
  is \<^verbatim>\<open>POST e\<close>.
\<close>

fun is_write :: "request \<Rightarrow> bool" where
  "is_write (GetContents e p r) = False"
| "is_write (CreateFile e p c m b) = True"
| "is_write (UpdateFile e p c m b s) = True"
| "is_write (DeleteFile e p m b s) = True"
| "is_write (BatchCommit e fs m b) = True"

text \<open>
  A response: its status, its status text, what \<^verbatim>\<open>response.text()\<close> yields (\<open>Inl\<close>: it
  rejects with that message) and what \<^verbatim>\<open>response.json()\<close> yields: the \<^verbatim>\<open>sha\<close> and the
  \<^verbatim>\<open>content\<close> field (the base64 text) of a file object; \<open>None\<close>: \<^verbatim>\<open>json()\<close> throws, or
  there is no content to hand to \<^verbatim>\<open>Buffer.from\<close>, which then throws.
\<close>

record Response =
  status :: nat
  statusText :: string
  text_body :: "string + string"
  json_body :: "(string \<times> string) option"

definition ok :: "Response \<Rightarrow> bool" where
  "ok r = (200 \<le> status r \<and> status r \<le> 299)"

text \<open>
  The network: it answers a request in a state of the world and moves the world on.
  \<open>Inl m\<close> is a \<^verbatim>\<open>fetch\<close> that rejects with an \<^verbatim>\<open>Error\<close> of message \<open>m\<close>. The engine's
  state is the world together with the trace of the requests issued so far.
\<close>

type_synonym 'w net = "request \<Rightarrow> 'w \<Rightarrow> (string + Response) \<times> 'w"

type_synonym 'w st = "'w \<times> request list"

definition fetch :: "'w net \<Rightarrow> request \<Rightarrow> 'w st \<Rightarrow> (string + Response) \<times> 'w st" where
  "fetch net req s = (case net req (fst s) of (r, w') \<Rightarrow> (r, (w', snd s @ [req])))"

text \<open>Decimal rendering of a number inside a template string.\<close>

fun string_of_nat :: "nat \<Rightarrow> string" where
  "string_of_nat n =
     (if n < 10 then [char_of (48 + n)]
      else string_of_nat (n div 10) @ [char_of (48 + n mod 10)])"

declare string_of_nat.simps [simp del]

subsection \<open>Remote State Prober and Change Detector: detectChangesNeeded\<close>

text \<open>
  One iteration of the loop over \<^verbatim>\<open>files\<close>. The accumulators \<^verbatim>\<open>needsUpdate\<close> and
  \<^verbatim>\<open>remoteFiles\<close> are passed and returned; mutations of \<^verbatim>\<open>file\<close> show in the operation
  pushed. Anything thrown inside the \<^verbatim>\<open>try\<close> (a rejected fetch, a body that is not a file
  object, the explicit throw for a status other than 404) ends in the \<^verbatim>\<open>catch\<close>, which
  pushes the file as it is at that point.
\<close>

definition detect_file ::
  "Platform \<Rightarrow> 'w net \<Rightarrow> Endpoint \<Rightarrow> string \<Rightarrow> FileOperation \<Rightarrow>
   FileOperation list \<times> (string \<rightharpoonup> RemoteFileInfo) \<Rightarrow> 'w st \<Rightarrow>
   (FileOperation list \<times> (string \<rightharpoonup> RemoteFileInfo)) \<times> 'w st" where
  "detect_file pf net ep branch file acc s =
     (case acc of (needsUpdate, remoteFiles) \<Rightarrow>
      (case fetch net (GetContents ep (path file) branch) s of
         (Inl m, s') \<Rightarrow> ((needsUpdate @ [file], remoteFiles), s')
       | (Inr response, s') \<Rightarrow>
           if ok response then
             (case json_body response of
                None \<Rightarrow> ((needsUpdate @ [file], remoteFiles), s')
              | Some (remoteSha, remoteBase64) \<Rightarrow>
                  let remoteContent = from_base64 pf remoteBase64;
                      remoteFiles' = remoteFiles(path file \<mapsto>
                        \<lparr> rf_sha = remoteSha, rf_content = remoteContent, rf_path = path file \<rparr>);
                      file' = (if operation file = Modify \<or> operation file = Delete
                               then file\<lparr> sha := Some remoteSha \<rparr> else file)
                  in
                    if operation file' = Modify \<and> content file' = Some remoteContent
                    then ((needsUpdate, remoteFiles'), s')
                    else ((needsUpdate @ [file'], remoteFiles'), s'))
           else if status response = 404 then
             (if operation file = Add then ((needsUpdate @ [file], remoteFiles), s')
              else if operation file = Modify then
                ((needsUpdate @ [file\<lparr> operation := Add, sha := None \<rparr>], remoteFiles), s')
              else ((needsUpdate, remoteFiles), s'))
           else ((needsUpdate @ [file], remoteFiles), s')))"

fun detect_loop ::
  "Platform \<Rightarrow> 'w net \<Rightarrow> Endpoint \<Rightarrow> string \<Rightarrow> FileOperation list \<Rightarrow>
   FileOperation list \<times> (string \<rightharpoonup> RemoteFileInfo) \<Rightarrow> 'w st \<Rightarrow>
   (FileOperation list \<times> (string \<rightharpoonup> RemoteFileInfo)) \<times> 'w st" where
  "detect_loop pf net ep branch [] acc s = (acc, s)"
| "detect_loop pf net ep branch (file # files) acc s =
     (case detect_file pf net ep branch file acc s of
        (acc', s') \<Rightarrow> detect_loop pf net ep branch files acc' s')"

definition detectChangesNeeded ::
  "Platform \<Rightarrow> 'w net \<Rightarrow> Endpoint \<Rightarrow> string \<Rightarrow> FileOperation list \<Rightarrow> 'w st \<Rightarrow>
   (FileOperation list \<times> (string \<rightharpoonup> RemoteFileInfo)) \<times> 'w st" where
  "detectChangesNeeded pf net ep branch files s = detect_loop pf net ep branch files ([], Map.empty) s"

subsection \<open>The summary under construction\<close>

datatype op_status = Success | Failed | WouldExecute

record Outcome =
  o_file :: string
  o_operation :: op_kind
  o_status :: op_status
  o_error :: "string option"

record Details =
  operations :: "Outcome list"
  conflicts :: "(string \<times> string) list"
  unchanged :: "string list"

record Result =
  discovered :: nat
  analyzed :: nat
  needsUpdate :: nat
  processed :: nat
  succeeded :: nat
  failed :: nat
  skipped :: nat
  details :: Details

text \<open>\<^verbatim>\<open>result.details.operations.push(...)\<close>.\<close>

definition push_operation :: "Outcome \<Rightarrow> Result \<Rightarrow> Result" where
  "push_operation out result =
     result\<lparr> details := (details result)\<lparr> operations := operations (details result) @ [out] \<rparr> \<rparr>"

definition success_outcome :: "FileOperation \<Rightarrow> Outcome" where
  "success_outcome file =
     \<lparr> o_file = path file, o_operation = operation file, o_status = Success, o_error = None \<rparr>"

definition failed_outcome :: "FileOperation \<Rightarrow> string \<Rightarrow> Outcome" where
  "failed_outcome file e =
     \<lparr> o_file = path file, o_operation = operation file, o_status = Failed, o_error = Some e \<rparr>"

subsection \<open>Call parameters\<close>

record Instance =
  i_id :: string
  baseUrl :: string
  token :: string

record Params =
  p_instanceId :: "string option"
  p_owner :: "string option"
  p_repository :: "string option"
  p_files :: "RawFile list"
  p_message :: "string option"
  p_branch :: string
  p_strategy :: string
  p_conflictResolution :: string
  p_detectChanges :: bool
  p_dryRun :: bool

text \<open>A template string renders \<^verbatim>\<open>undefined\<close> as the text \<^verbatim>\<open>undefined\<close>.\<close>

definition render :: "string option \<Rightarrow> string" where
  "render s = (case s of None \<Rightarrow> ''undefined'' | Some v \<Rightarrow> v)"

definition endpoint :: "Instance \<Rightarrow> Params \<Rightarrow> Endpoint" where
  "endpoint instance params =
     \<lparr> contents_url = baseUrl instance @ ''/api/v1/repos/'' @ render (p_owner params) @ ''/''
                        @ render (p_repository params) @ ''/contents'',
       auth_token = token instance \<rparr>"

subsection \<open>Executor, Batch strategy: executeBatchUpdate\<close>

definition batch_entry :: "Platform \<Rightarrow> FileOperation \<Rightarrow> BatchFile" where
  "batch_entry pf file =
     (if operation file = Delete then
        \<lparr> b_path = path file, b_operation = BDelete, b_content = None,
          b_sha = (if \<not> falsy (sha file) then sha file else None) \<rparr>
      else
        \<lparr> b_path = path file,
          b_operation = (if operation file = Modify then BUpdate else BCreate),
          b_content = Some (to_base64 pf (or_default (content file) [])),
          b_sha = (if \<not> falsy (sha file) \<and> operation file = Modify then sha file else None) \<rparr>)"

definition batch_all_failed :: "FileOperation list \<Rightarrow> string \<Rightarrow> Result \<Rightarrow> Result" where
  "batch_all_failed files e result =
     fold (\<lambda>file. push_operation (failed_outcome file e)) files
       (result\<lparr> processed := length files, failed := length files \<rparr>)"

definition batch_all_succeeded :: "FileOperation list \<Rightarrow> Result \<Rightarrow> Result" where
  "batch_all_succeeded files result =
     fold (\<lambda>file. push_operation (success_outcome file)) files
       (result\<lparr> processed := length files, succeeded := length files \<rparr>)"

definition executeBatchUpdate ::
  "Platform \<Rightarrow> 'w net \<Rightarrow> Instance \<Rightarrow> Params \<Rightarrow> FileOperation list \<Rightarrow> Result \<Rightarrow> 'w st \<Rightarrow> Result \<times> 'w st" where
  "executeBatchUpdate pf net instance params files result s =
     (case fetch net (BatchCommit (endpoint instance params) (map (batch_entry pf) files)
                        (render (p_message params)) (p_branch params)) s of
        (Inl errorMessage, s') \<Rightarrow>
          (batch_all_failed files (''Batch operation error: '' @ errorMessage) result, s')
      | (Inr response, s') \<Rightarrow>
          if ok response then (batch_all_succeeded files result, s')
          else
            (case text_body response of
               Inl errorMessage \<Rightarrow>
                 (batch_all_failed files (''Batch operation error: '' @ errorMessage) result, s')
             | Inr errorText \<Rightarrow>
                 (batch_all_failed files
                    (''Batch operation failed: '' @ string_of_nat (status response) @ '' '' @ errorText)
                    result, s')))"

subsection \<open>Executor, Individual strategy: executeIndividualUpdates\<close>

text \<open>
  The two per-file operations either return the updated result or throw an \<^verbatim>\<open>Error\<close>
  (\<open>Inl\<close>, with its message): a rejected fetch, a rejected \<^verbatim>\<open>response.text()\<close>, or the
  explicit throw on a response that is not ok.
\<close>

definition after_write ::
  "FileOperation \<Rightarrow> Result \<Rightarrow> (string + Response) \<times> 'w st \<Rightarrow> (string + Result) \<times> 'w st" where
  "after_write file result answer =
     (case answer of
        (Inl m, s') \<Rightarrow> (Inl m, s')
      | (Inr response, s') \<Rightarrow>
          if ok response then
            (Inr (push_operation (success_outcome file)
                    (result\<lparr> succeeded := succeeded result + 1 \<rparr>)), s')
          else
            (case text_body response of
               Inl m \<Rightarrow> (Inl m, s')
             | Inr errorText \<Rightarrow>
                 (Inl (string_of_nat (status response) @ '': '' @ errorText), s')))"

definition executeCreateOrUpdateOperation ::
  "Platform \<Rightarrow> 'w net \<Rightarrow> Instance \<Rightarrow> Params \<Rightarrow> FileOperation \<Rightarrow> Result \<Rightarrow> 'w st \<Rightarrow>
   (string + Result) \<times> 'w st" where
  "executeCreateOrUpdateOperation pf net instance params file result s =
     (if operation file = Add then
        after_write file result
          (fetch net (CreateFile (endpoint instance params) (path file)
                        (to_base64 pf (or_default (content file) []))
                        (render (p_message params)) (p_branch params)) s)
      else
        after_write file result
          (fetch net (UpdateFile (endpoint instance params) (path file)
                        (to_base64 pf (or_default (content file) []))
                        (render (p_message params)) (p_branch params) (sha file)) s))"

definition executeDeleteOperation ::
  "'w net \<Rightarrow> Instance \<Rightarrow> Params \<Rightarrow> FileOperation \<Rightarrow> Result \<Rightarrow> 'w st \<Rightarrow>
   (string + Result) \<times> 'w st" where
  "executeDeleteOperation net instance params file result s =
     after_write file result
       (fetch net (DeleteFile (endpoint instance params) (path file)
                     (render (p_message params)) (p_branch params) (sha file)) s)"

fun executeIndividualUpdates ::
  "Platform \<Rightarrow> 'w net \<Rightarrow> Instance \<Rightarrow> Params \<Rightarrow> FileOperation list \<Rightarrow> Result \<Rightarrow> 'w st \<Rightarrow> Result \<times> 'w st" where
  "executeIndividualUpdates pf net instance params [] result s = (result, s)"
| "executeIndividualUpdates pf net instance params (file # files) result s =
     (let result1 = result\<lparr> processed := processed result + 1 \<rparr> in
      case (if operation file = Delete
            then executeDeleteOperation net instance params file result1 s
            else executeCreateOrUpdateOperation pf net instance params file result1 s) of
        (Inr result2, s') \<Rightarrow> executeIndividualUpdates pf net instance params files result2 s'
      | (Inl m, s') \<Rightarrow>
          executeIndividualUpdates pf net instance params files
            (push_operation (failed_outcome file m) (result1\<lparr> failed := failed result1 + 1 \<rparr>)) s')"

subsection \<open>The tool handler of sync\_update\<close>

record Args =
  instanceId :: "string option"
  owner :: "string option"
  repository :: "string option"
  files :: "RawFile list"
  message :: "string option"
  branch :: "string option"
  strategy :: "string option"
  conflictResolution :: "string option"
  detectChanges :: "bool option"
  dryRun :: "bool option"

text \<open>
  Parameter defaults. \<^verbatim>\<open>args.files || []\<close>: an absent list is the empty list;
  \<^verbatim>\<open>args.detectChanges !== false\<close>; \<^verbatim>\<open>args.dryRun || false\<close>.
\<close>

definition make_params :: "Args \<Rightarrow> Params" where
  "make_params args =
     \<lparr> p_instanceId = instanceId args,
       p_owner = owner args,
       p_repository = repository args,
       p_files = files args,
       p_message = message args,
       p_branch = or_default (branch args) ''main'',
       p_strategy = or_default (strategy args) ''auto'',
       p_conflictResolution = or_default (conflictResolution args) ''fail'',
       p_detectChanges = (detectChanges args \<noteq> Some False),
       p_dryRun = (dryRun args = Some True) \<rparr>"

definition basic_validation :: "Params \<Rightarrow> thrown option" where
  "basic_validation params =
     (if falsy (p_instanceId params) then Some (PlainError ''instanceId is required'')
      else if falsy (p_owner params) then Some (PlainError ''owner is required'')
      else if falsy (p_repository params) then Some (PlainError ''repository is required'')
      else if falsy (p_message params) then Some (PlainError ''message is required'')
      else if length (p_files params) = 0 then
        Some (PlainError ''files array is required and must not be empty'')
      else None)"

record OutDetails =
  d_repository :: string
  d_branch :: string
  d_commitMessage :: string
  d_operations :: "Outcome list"
  d_conflicts :: "(string \<times> string) list option"
  d_unchanged :: "string list option"

datatype Output =
    DryRunOutput (strategy_of: string) (summary: Result)
      (filesNeedingUpdate: "(string \<times> op_kind \<times> bool) list")
  | ExecOutput (success: bool) (strategy_of: string) (summary: Result) (out_details: OutDetails)

definition initial_result :: "Params \<Rightarrow> FileOperation list \<Rightarrow> FileOperation list \<Rightarrow> Result" where
  "initial_result params normalizedFiles plan =
     \<lparr> discovered = length (p_files params),
       analyzed = length normalizedFiles,
       needsUpdate = length plan,
       processed = 0, succeeded = 0, failed = 0, skipped = 0,
       details = \<lparr> operations = [], conflicts = [], unchanged = [] \<rparr> \<rparr>"

definition dry_run_output :: "string \<Rightarrow> Result \<Rightarrow> FileOperation list \<Rightarrow> Output" where
  "dry_run_output strat result plan =
     DryRunOutput strat
       (result\<lparr> details := (details result)\<lparr> operations :=
          map (\<lambda>file. \<lparr> o_file = path file, o_operation = operation file,
                         o_status = WouldExecute, o_error = None \<rparr>) plan \<rparr> \<rparr>)
       (map (\<lambda>f. (path f, operation f, \<not> falsy (sha f))) plan)"

definition exec_output :: "Params \<Rightarrow> string \<Rightarrow> Result \<Rightarrow> Output" where
  "exec_output params strat result =
     ExecOutput (failed result = 0) strat result
       \<lparr> d_repository = render (p_owner params) @ ''/'' @ render (p_repository params),
         d_branch = p_branch params,
         d_commitMessage = render (p_message params),
         d_operations = operations (details result),
         d_conflicts = (if length (conflicts (details result)) > 0
                        then Some (conflicts (details result)) else None),
         d_unchanged = (if length (unchanged (details result)) > 0
                        then Some (unchanged (details result)) else None) \<rparr>"

text \<open>
  The dispatch between the two executors:
  \<^verbatim>\<open>if (strategy === 'batch' && needsUpdate.length > 1) ... else ...\<close>.
\<close>

definition execute ::
  "Platform \<Rightarrow> 'w net \<Rightarrow> Instance \<Rightarrow> Params \<Rightarrow> string \<Rightarrow> FileOperation list \<Rightarrow> Result \<Rightarrow> 'w st \<Rightarrow>
   Result \<times> 'w st" where
  "execute pf net instance params strat plan result s =
     (if strat = ''batch'' \<and> length plan > 1
      then executeBatchUpdate pf net instance params plan result s
      else executeIndividualUpdates pf net instance params plan result s)"

text \<open>
  The body of the \<^verbatim>\<open>try\<close> block. \<open>instances\<close> is \<^verbatim>\<open>loadConfig().gitea.instances\<close>, the
  configuration as loaded from the environment.
\<close>

definition sync_update_body ::
  "Platform \<Rightarrow> 'w net \<Rightarrow> Instance list \<Rightarrow> Args \<Rightarrow> 'w st \<Rightarrow> (thrown + Output) \<times> 'w st" where
  "sync_update_body pf net instances args s =
     (let params = make_params args in
      case basic_validation params of
        Some e \<Rightarrow> (Inl e, s)
      | None \<Rightarrow>
         (case find (\<lambda>inst. Some (i_id inst) = p_instanceId params) instances of
            None \<Rightarrow>
              (Inl (PlainError (''Gitea instance '' @ [CHR 0x27] @ render (p_instanceId params)
                                 @ [CHR 0x27] @ '' not found'')), s)
          | Some instance \<Rightarrow>
             (case validateAndNormalizeFiles (p_files params) of
                Inl e \<Rightarrow> (Inl e, s)
              | Inr normalizedFiles \<Rightarrow>
                 (case (if p_detectChanges params
                        then detectChangesNeeded pf net (endpoint instance params) (p_branch params)
                               normalizedFiles s
                        else ((normalizedFiles, Map.empty), s)) of
                    ((plan, remoteFiles), s1) \<Rightarrow>
                      let strat = determineStrategy (p_strategy params) plan;
                          result = initial_result params normalizedFiles plan
                      in
                        if p_dryRun params then (Inr (dry_run_output strat result plan), s1)
                        else
                          (case execute pf net instance params strat plan result s1 of
                             (result', s2) \<Rightarrow> (Inr (exec_output params strat result'), s2))))))"

text \<open>The \<^verbatim>\<open>catch\<close> block of the handler: what the caller of the tool gets to see.\<close>

fun join_comma :: "string list \<Rightarrow> string" where
  "join_comma [] = []"
| "join_comma [m] = m"
| "join_comma (m # ms) = m @ '', '' @ join_comma ms"

fun surface :: "thrown \<Rightarrow> AppError" where
  "surface (ZodError ms) = AppError VALIDATION_ERROR (''Invalid parameters: '' @ join_comma ms)"
| "surface e = AppError EXTERNAL_API_ERROR (''Failed to sync update files: '' @ error_message e)"

definition sync_update ::
  "Platform \<Rightarrow> 'w net \<Rightarrow> Instance list \<Rightarrow> Args \<Rightarrow> 'w st \<Rightarrow> (AppError + Output) \<times> 'w st" where
  "sync_update pf net instances args s =
     (case sync_update_body pf net instances args s of
        (Inl e, s') \<Rightarrow> (Inl (surface e), s')
      | (Inr out, s') \<Rightarrow> (Inr out, s'))"

subsection \<open>A reference content store\<close>

text \<open>
  The store on the other side of the contents API is not part of the engine. For the
  properties that speak about the state of the remote side, and for concrete runs, the
  following reference store is used: one repository on one branch, a finite map from files
  to a version token and the stored content (the base64 text as it was sent). Which file a
  request addresses is given by \<open>locate\<close>, a parameter: it takes the path as the engine
  put it into the URL or into the entry of a combined commit, and yields the file; the
  same path addresses the same file in a probe and in a write. Reads never change the store.
  A create succeeds on an absent file only; an update or a delete succeeds on a present
  file whose current version token is the one sent (optimistic concurrency); a combined
  commit applies its entries in order and takes effect only if every entry succeeds. The
  version token of a stored file is determined by its content, as a blob hash is.
\<close>

type_synonym store = "string \<rightharpoonup> (string \<times> string)"

definition sha_of :: "string \<Rightarrow> string" where
  "sha_of c = ''sha-'' @ c"

definition store_apply :: "(string \<Rightarrow> string) \<Rightarrow> BatchFile \<Rightarrow> store \<Rightarrow> store option" where
  "store_apply locate bf st =
     (case b_operation bf of
        BCreate \<Rightarrow>
          (case st (locate (b_path bf)) of
             None \<Rightarrow> Some (st(locate (b_path bf) \<mapsto>
                       (sha_of (or_default (b_content bf) []), or_default (b_content bf) [])))
           | Some v \<Rightarrow> None)
      | BUpdate \<Rightarrow>
          (case st (locate (b_path bf)) of
             None \<Rightarrow> None
           | Some v \<Rightarrow>
               if b_sha bf = Some (fst v)
               then Some (st(locate (b_path bf) \<mapsto>
                       (sha_of (or_default (b_content bf) []), or_default (b_content bf) [])))
               else None)
      | BDelete \<Rightarrow>
          (case st (locate (b_path bf)) of
             None \<Rightarrow> None
           | Some v \<Rightarrow>
               if b_sha bf = Some (fst v) then Some (st(locate (b_path bf) := None)) else None))"

fun store_apply_all :: "(string \<Rightarrow> string) \<Rightarrow> BatchFile list \<Rightarrow> store \<Rightarrow> store option" where
  "store_apply_all locate [] st = Some st"
| "store_apply_all locate (bf # bfs) st =
     (case store_apply locate bf st of
        None \<Rightarrow> None
      | Some st' \<Rightarrow> store_apply_all locate bfs st')"

definition plain_response :: "nat \<Rightarrow> string \<Rightarrow> Response" where
  "plain_response n t = \<lparr> status = n, statusText = t, text_body = Inr t, json_body = None \<rparr>"

definition store_commit ::
  "(string \<Rightarrow> string) \<Rightarrow> BatchFile list \<Rightarrow> store \<Rightarrow> (string + Response) \<times> store" where
  "store_commit locate bfs st =
     (case store_apply_all locate bfs st of
        None \<Rightarrow> (Inr (plain_response 422 ''Unprocessable Entity''), st)
      | Some st' \<Rightarrow> (Inr (plain_response 201 ''Created''), st'))"

fun store_net :: "(string \<Rightarrow> string) \<Rightarrow> store net" where
  "store_net locate (GetContents e p r) st =
     (case st (locate p) of
        None \<Rightarrow> (Inr (plain_response 404 ''Not Found''), st)
      | Some v \<Rightarrow>
          (Inr \<lparr> status = 200, statusText = ''OK'', text_body = Inr (snd v),
                 json_body = Some (fst v, snd v) \<rparr>, st))"
| "store_net locate (CreateFile e p c m b) st =
     store_commit locate
       [\<lparr> b_path = p, b_operation = BCreate, b_content = Some c, b_sha = None \<rparr>] st"
| "store_net locate (UpdateFile e p c m b sh) st =
     store_commit locate
       [\<lparr> b_path = p, b_operation = BUpdate, b_content = Some c, b_sha = sh \<rparr>] st"
| "store_net locate (DeleteFile e p m b sh) st =
     store_commit locate
       [\<lparr> b_path = p, b_operation = BDelete, b_content = None, b_sha = sh \<rparr>] st"
| "store_net locate (BatchCommit e bfs m b) st = store_commit locate bfs st"

text \<open>A store in which every path addresses the file of that very name.\<close>

definition same_path :: "string \<Rightarrow> string" where
  "same_path p = p"


subsection \<open>A concrete platform\<close>

text \<open>
  For concrete runs: the envelope of Node's \<^verbatim>\<open>Buffer\<close>, on strings given by their bytes in
  (generalised) UTF-8. A JavaScript string can hold a lone surrogate, which in this
  representation is a three-byte sequence starting \<^verbatim>\<open>ED A0..BF\<close>; the UTF-8 encoder of
  \<^verbatim>\<open>Buffer.from(s, 'utf8')\<close> writes the replacement character \<^verbatim>\<open>EF BF BD\<close> for it. The
  bytes are then put into standard base64. Opening the envelope reads the base64 text
  (characters outside the alphabet, the padding among them, are skipped) and gives the bytes
  back as they are, which is what \<^verbatim>\<open>toString('utf8')\<close> does on well-formed UTF-8.
\<close>

fun utf8_bytes :: "nat list \<Rightarrow> nat list" where
  "utf8_bytes (a # b # c # rest) =
     (if a = 237 \<and> 160 \<le> b \<and> b \<le> 191 then [239, 191, 189] @ utf8_bytes rest
      else a # utf8_bytes (b # c # rest))"
| "utf8_bytes bs = bs"

definition base64_alphabet :: string where
  "base64_alphabet = ''ABCDEFGHIJKLMNOPQRSTUVWXYZabcdefghijklmnopqrstuvwxyz0123456789+/''"

definition base64_char :: "nat \<Rightarrow> char" where
  "base64_char n = base64_alphabet ! (n mod 64)"

fun base64_encode :: "nat list \<Rightarrow> string" where
  "base64_encode [] = []"
| "base64_encode [a] =
     [base64_char (a div 4), base64_char ((a mod 4) * 16), CHR ''='', CHR ''='']"
| "base64_encode [a, b] =
     [base64_char (a div 4), base64_char ((a mod 4) * 16 + b div 16),
      base64_char ((b mod 16) * 4), CHR ''='']"
| "base64_encode (a # b # c # rest) =
     [base64_char (a div 4), base64_char ((a mod 4) * 16 + b div 16),
      base64_char ((b mod 16) * 4 + c div 64), base64_char (c mod 64)] @ base64_encode rest"

fun index_of :: "'a \<Rightarrow> 'a list \<Rightarrow> nat option" where
  "index_of x [] = None"
| "index_of x (y # ys) =
     (if x = y then Some 0 else (case index_of x ys of None \<Rightarrow> None | Some n \<Rightarrow> Some (Suc n)))"

fun base64_bytes :: "nat list \<Rightarrow> nat list" where
  "base64_bytes (w # x # y # z # rest) =
     [w * 4 + x div 16, (x mod 16) * 16 + y div 4, (y mod 4) * 64 + z] @ base64_bytes rest"
| "base64_bytes [w, x, y] = [w * 4 + x div 16, (x mod 16) * 16 + y div 4]"
| "base64_bytes [w, x] = [w * 4 + x div 16]"
| "base64_bytes ws = []"

definition base64_decode :: "string \<Rightarrow> nat list" where
  "base64_decode t = base64_bytes (List.map_filter (\<lambda>c. index_of c base64_alphabet) t)"

definition node_platform :: Platform where
  "node_platform =
     \<lparr> to_base64 = (\<lambda>s. base64_encode (utf8_bytes (map of_char s))),
       from_base64 = (\<lambda>t. map char_of (base64_decode t)) \<rparr>"

section \<open>Notions used to state the properties\<close>

text \<open>The answers the network gives to a sequence of requests issued one after the other.\<close>

fun answers :: "'w net \<Rightarrow> request list \<Rightarrow> 'w \<Rightarrow> (string + Response) list" where
  "answers net [] w = []"
| "answers net (req # reqs) w = (case net req w of (a, w') \<Rightarrow> a # answers net reqs w')"

text \<open>A request is answered with a success response (not a rejection, not an error status).\<close>

definition answered_ok :: "'w net \<Rightarrow> request \<Rightarrow> 'w \<Rightarrow> bool" where
  "answered_ok net req w = (case fst (net req w) of Inl m \<Rightarrow> False | Inr r \<Rightarrow> ok r)"

text \<open>The one request of the Batch strategy.\<close>

definition batch_request :: "Platform \<Rightarrow> Instance \<Rightarrow> Params \<Rightarrow> FileOperation list \<Rightarrow> request" where
  "batch_request pf instance params plan =
     BatchCommit (endpoint instance params) (map (batch_entry pf) plan)
       (render (p_message params)) (p_branch params)"

text \<open>
  The one request the Individual strategy is expected to issue for an operation: a delete call
  for a Delete, a create call (without a sha) for an Add, an update call (with the operation's
  sha) for a Modify, each on the operation's own path; create and update carry the content in
  the base64 envelope.
\<close>

definition write_request :: "Platform \<Rightarrow> Instance \<Rightarrow> Params \<Rightarrow> FileOperation \<Rightarrow> request" where
  "write_request pf instance params file =
     (if operation file = Delete then
        DeleteFile (endpoint instance params) (path file)
          (render (p_message params)) (p_branch params) (sha file)
      else if operation file = Add then
        CreateFile (endpoint instance params) (path file)
          (to_base64 pf (or_default (content file) []))
          (render (p_message params)) (p_branch params)
      else
        UpdateFile (endpoint instance params) (path file)
          (to_base64 pf (or_default (content file) []))
          (render (p_message params)) (p_branch params) (sha file))"

text \<open>
  The error text the Batch strategy is expected to report for an answer that is not a
  success: the message of the rejection, or the status and the body of the error response.
\<close>

definition batch_error_text :: "(string + Response) \<Rightarrow> string" where
  "batch_error_text answer =
     (case answer of
        Inl m \<Rightarrow> ''Batch operation error: '' @ m
      | Inr r \<Rightarrow>
          (case text_body r of
             Inl m \<Rightarrow> ''Batch operation error: '' @ m
           | Inr errorText \<Rightarrow>
               ''Batch operation failed: '' @ string_of_nat (status r) @ '' '' @ errorText))"

text \<open>
  The outcome the Individual strategy is expected to record for one operation, as a function
  of that operation and of the answer to its own request alone: the record names the
  operation's path and kind; its status is Success without an error text when the answer is
  a success response, and Failed otherwise, with the message of the rejection or the status
  and body of the error response as error text.
\<close>

definition individual_error_text :: "(string + Response) \<Rightarrow> string" where
  "individual_error_text answer =
     (case answer of
        Inl m \<Rightarrow> m
      | Inr r \<Rightarrow>
          (case text_body r of
             Inl m \<Rightarrow> m
           | Inr errorText \<Rightarrow> string_of_nat (status r) @ '': '' @ errorText))"

definition answer_ok :: "(string + Response) \<Rightarrow> bool" where
  "answer_ok answer = (case answer of Inl m \<Rightarrow> False | Inr r \<Rightarrow> ok r)"

definition individual_outcome :: "FileOperation \<Rightarrow> (string + Response) \<Rightarrow> Outcome" where
  "individual_outcome file answer =
     (if answer_ok answer then
        \<lparr> o_file = path file, o_operation = operation file, o_status = Success,
          o_error = None \<rparr>
      else
        \<lparr> o_file = path file, o_operation = operation file, o_status = Failed,
          o_error = Some (individual_error_text answer) \<rparr>)"

definition count_failed :: "Outcome list \<Rightarrow> nat" where
  "count_failed outs = length (filter (\<lambda>out. o_status out = Failed) outs)"

text \<open>The files a write request touches, with the kind of change, in order.\<close>

fun batch_kind_op :: "batch_kind \<Rightarrow> op_kind" where
  "batch_kind_op BCreate = Add"
| "batch_kind_op BUpdate = Modify"
| "batch_kind_op BDelete = Delete"

fun request_targets :: "request \<Rightarrow> (string \<times> op_kind) list" where
  "request_targets (GetContents e p r) = []"
| "request_targets (CreateFile e p c m b) = [(p, Add)]"
| "request_targets (UpdateFile e p c m b s) = [(p, Modify)]"
| "request_targets (DeleteFile e p m b s) = [(p, Delete)]"
| "request_targets (BatchCommit e bfs m b) = map (\<lambda>bf. (b_path bf, batch_kind_op (b_operation bf))) bfs"

text \<open>Every probe of the given paths, issued in order from world \<open>w\<close>, is answered 404.\<close>

fun probes_not_found :: "'w net \<Rightarrow> Endpoint \<Rightarrow> string \<Rightarrow> string list \<Rightarrow> 'w \<Rightarrow> bool" where
  "probes_not_found net ep ref [] w = True"
| "probes_not_found net ep ref (p # ps) w =
     (case net (GetContents ep p ref) w of
        (Inl m, w') \<Rightarrow> False
      | (Inr r, w') \<Rightarrow> status r = 404 \<and> probes_not_found net ep ref ps w')"

subsection \<open>Concrete inputs\<close>

definition example_instance :: Instance where
  "example_instance = \<lparr> i_id = ''main'', baseUrl = ''https://git.example'', token = ''secret'' \<rparr>"

definition raw_file :: "string \<Rightarrow> string option \<Rightarrow> string \<Rightarrow> RawFile" where
  "raw_file p c k = \<lparr> r_path = Some p, r_content = c, r_operation = Some k, r_sha = None \<rparr>"

definition example_args :: "RawFile list \<Rightarrow> string option \<Rightarrow> bool option \<Rightarrow> Args" where
  "example_args fs strat dry =
     \<lparr> instanceId = Some ''main'', owner = Some ''alice'', repository = Some ''demo'',
       files = fs, message = Some ''sync'', branch = None, strategy = strat,
       conflictResolution = None, detectChanges = None, dryRun = dry \<rparr>"

definition example_params :: Params where
  "example_params = make_params (example_args [] None None)"

definition file_op :: "string \<Rightarrow> string option \<Rightarrow> op_kind \<Rightarrow> string option \<Rightarrow> FileOperation" where
  "file_op p c k sh = \<lparr> path = p, content = c, operation = k, sha = sh \<rparr>"

definition empty_result :: Result where
  "empty_result = initial_result example_params [] []"

definition batch_plan :: "FileOperation list" where
  "batch_plan =
     [file_op ''a.txt'' (Some ''A'') Add None,
      file_op ''b.txt'' (Some ''B'') Modify (Some ''sha-b2xk''),
      file_op ''c.txt'' (Some ''C'') Add None]"

definition mixed_plan :: "FileOperation list" where
  "mixed_plan =
     [file_op ''a.txt'' (Some ''A'') Add None,
      file_op ''old.txt'' None Delete (Some ''sha-b2xk'')]"

text \<open>
  Stores hold the base64 text: \<^verbatim>\<open>b2xk\<close> is \<^verbatim>\<open>old\<close>, \<^verbatim>\<open>bmV3\<close> is \<^verbatim>\<open>new\<close>, \<^verbatim>\<open>WA==\<close> is \<^verbatim>\<open>X\<close>,
  \<^verbatim>\<open>Qg==\<close> is \<^verbatim>\<open>B\<close>.
\<close>

definition batch_store :: store where
  "batch_store = [''b.txt'' \<mapsto> (''sha-b2xk'', ''b2xk'')]"

definition stale_store :: store where
  "stale_store = [''b.txt'' \<mapsto> (''sha-bmV3'', ''bmV3'')]"

definition individual_plan :: "FileOperation list" where
  "individual_plan =
     [file_op ''b.txt'' (Some ''B'') Add None,
      file_op ''a.txt'' (Some ''A'') Add None,
      file_op ''b.txt'' None Delete (Some ''sha-gone''),
      file_op ''c.txt'' (Some ''C'') Modify (Some ''sha-b2xk'')]"

definition individual_store :: store where
  "individual_store =
     [''b.txt'' \<mapsto> (''sha-b2xk'', ''b2xk''), ''c.txt'' \<mapsto> (''sha-b2xk'', ''b2xk'')]"

definition example_endpoint :: Endpoint where
  "example_endpoint = endpoint example_instance example_params"

definition delete_args :: Args where
  "delete_args = example_args [raw_file ''b.txt'' None ''delete''] None None"

text \<open>The planning phase of the handler: detection when it is enabled, the input verbatim otherwise.\<close>

definition plan_phase ::
  "Platform \<Rightarrow> 'w net \<Rightarrow> Instance \<Rightarrow> Params \<Rightarrow> FileOperation list \<Rightarrow> 'w st \<Rightarrow>
   (FileOperation list \<times> (string \<rightharpoonup> RemoteFileInfo)) \<times> 'w st" where
  "plan_phase pf net instance params normalizedFiles s =
     (if p_detectChanges params
      then detectChangesNeeded pf net (endpoint instance params) (p_branch params) normalizedFiles s
      else ((normalizedFiles, Map.empty), s))"

definition add_args :: Args where
  "add_args = example_args [raw_file ''a.txt'' (Some ''X'') ''add''] None None"

definition same_content_args :: Args where
  "same_content_args = example_args [raw_file ''a.txt'' (Some ''X'') ''modify''] None None"

definition stored_a :: store where
  "stored_a = [''a.txt'' \<mapsto> (''sha-WA=='', ''WA=='')]"

definition bad_path_args :: Args where
  "bad_path_args = example_args [raw_file ''../secret.txt'' (Some ''X'') ''add''] None None"

definition no_content_args :: Args where
  "no_content_args = example_args [raw_file ''a.txt'' None ''modify''] None None"

definition bad_kind_args :: Args where
  "bad_kind_args = example_args [raw_file ''a.txt'' (Some ''X'') ''rename''] None None"

text \<open>Paths and kinds of a plan, of a list of outcomes, and of the plan a dry run reports.\<close>

definition plan_targets :: "FileOperation list \<Rightarrow> (string \<times> op_kind) list" where
  "plan_targets plan = map (\<lambda>f. (path f, operation f)) plan"

definition outcome_targets :: "Outcome list \<Rightarrow> (string \<times> op_kind) list" where
  "outcome_targets outs = map (\<lambda>out. (o_file out, o_operation out)) outs"

definition reported_targets :: "(string \<times> op_kind \<times> bool) list \<Rightarrow> (string \<times> op_kind) list" where
  "reported_targets fs = map (\<lambda>(p, k, h). (p, k)) fs"

definition dry_args :: Args where
  "dry_args = example_args [raw_file ''a.txt'' (Some ''X'') ''modify'',
                            raw_file ''b.txt'' (Some ''Y'') ''add''] None (Some True)"

definition dry_out :: Output where
  "dry_out = DryRunOutput ''batch''
     \<lparr> discovered = 2, analyzed = 2, needsUpdate = 2, processed = 0, succeeded = 0,
       failed = 0, skipped = 0,
       details = \<lparr> operations =
           [\<lparr> o_file = ''a.txt'', o_operation = Add, o_status = WouldExecute, o_error = None \<rparr>,
            \<lparr> o_file = ''b.txt'', o_operation = Add, o_status = WouldExecute, o_error = None \<rparr>],
         conflicts = [], unchanged = [] \<rparr> \<rparr>
     [(''a.txt'', Add, False), (''b.txt'', Add, False)]"

subsection \<open>Re-running a call against the reference store\<close>
















section \<open>Verification\<close>

subsection \<open>Basic facts\<close>

lemma fetch_eq:
  "net req (fst s) = (a, w') \<Longrightarrow> fetch net req s = (a, (w', snd s @ [req]))"
  by (simp add: fetch_def)

lemma push_operation_fields [simp]:
  "discovered (push_operation out r) = discovered r"
  "analyzed (push_operation out r) = analyzed r"
  "needsUpdate (push_operation out r) = needsUpdate r"
  "processed (push_operation out r) = processed r"
  "succeeded (push_operation out r) = succeeded r"
  "failed (push_operation out r) = failed r"
  "skipped (push_operation out r) = skipped r"
  "conflicts (details (push_operation out r)) = conflicts (details r)"
  "unchanged (details (push_operation out r)) = unchanged (details r)"
  "operations (details (push_operation out r)) = operations (details r) @ [out]"
  by (simp_all add: push_operation_def)

lemma fold_push_fields [simp]:
  "discovered (fold (\<lambda>file. push_operation (g file)) fs r) = discovered r"
  "analyzed (fold (\<lambda>file. push_operation (g file)) fs r) = analyzed r"
  "needsUpdate (fold (\<lambda>file. push_operation (g file)) fs r) = needsUpdate r"
  "processed (fold (\<lambda>file. push_operation (g file)) fs r) = processed r"
  "succeeded (fold (\<lambda>file. push_operation (g file)) fs r) = succeeded r"
  "failed (fold (\<lambda>file. push_operation (g file)) fs r) = failed r"
  "skipped (fold (\<lambda>file. push_operation (g file)) fs r) = skipped r"
  "conflicts (details (fold (\<lambda>file. push_operation (g file)) fs r)) = conflicts (details r)"
  "unchanged (details (fold (\<lambda>file. push_operation (g file)) fs r)) = unchanged (details r)"
  "operations (details (fold (\<lambda>file. push_operation (g file)) fs r))
     = operations (details r) @ map g fs"
  by (induction fs arbitrary: r; simp)+

lemma batch_run:
  assumes "executeBatchUpdate pf net instance params plan result s = (result', s')"
  shows "snd s' = snd s @ [batch_request pf instance params plan]
       \<and> fst s' = snd (net (batch_request pf instance params plan) (fst s))
       \<and> processed result' = length plan
       \<and> skipped result' = skipped result
       \<and> conflicts (details result') = conflicts (details result)
       \<and> unchanged (details result') = unchanged (details result)
       \<and> discovered result' = discovered result
       \<and> analyzed result' = analyzed result
       \<and> needsUpdate result' = needsUpdate result
       \<and> (answered_ok net (batch_request pf instance params plan) (fst s) \<longrightarrow>
            operations (details result')
              = operations (details result)
                @ map (\<lambda>file. \<lparr> o_file = path file, o_operation = operation file,
                               o_status = Success, o_error = None \<rparr>) plan
            \<and> succeeded result' = length plan \<and> failed result' = failed result)
       \<and> (\<not> answered_ok net (batch_request pf instance params plan) (fst s) \<longrightarrow>
            operations (details result')
              = operations (details result)
                @ map (\<lambda>file. \<lparr> o_file = path file, o_operation = operation file,
                               o_status = Failed,
                               o_error = Some (batch_error_text
                                 (fst (net (batch_request pf instance params plan) (fst s)))) \<rparr>)
                    plan
            \<and> failed result' = length plan \<and> succeeded result' = succeeded result)"
  using assms
  by (auto simp: executeBatchUpdate_def batch_request_def answered_ok_def fetch_def
        batch_all_failed_def batch_all_succeeded_def batch_error_text_def
        success_outcome_def failed_outcome_def
      split: prod.splits sum.splits if_splits)

lemmas example_defs = example_instance_def example_params_def example_args_def make_params_def
  file_op_def empty_result_def initial_result_def raw_file_def or_default_def render_def
  endpoint_def

lemmas store_defs = store_commit_def store_apply_def plain_response_def ok_def sha_of_def
  same_path_def

lemmas handler_defs = sync_update_def sync_update_body_def basic_validation_def falsy_def
  validate_file_def normalize_path_def startsWith_def detectChangesNeeded_def detect_file_def
  fetch_def determineStrategy_def execute_def executeBatchUpdate_def
  executeCreateOrUpdateOperation_def executeDeleteOperation_def after_write_def
  push_operation_def success_outcome_def failed_outcome_def batch_all_failed_def
  batch_all_succeeded_def batch_entry_def exec_output_def dry_run_output_def

text \<open>The envelope of the concrete platform on the contents that the concrete runs use.\<close>

lemma node_to_base64:
  "to_base64 node_platform ''X'' = ''WA==''"
  "to_base64 node_platform ''Y'' = ''WQ==''"
  "to_base64 node_platform ''A'' = ''QQ==''"
  "to_base64 node_platform ''B'' = ''Qg==''"
  "to_base64 node_platform ''C'' = ''Qw==''"
  by code_simp+


lemma node_from_base64:
  "from_base64 node_platform ''WA=='' = ''X''"
  "from_base64 node_platform ''b2xk'' = ''old''"
  "from_base64 node_platform ''Qg=='' = ''B''"
  by code_simp+

lemma string_of_nat_422: "string_of_nat 422 = ''422''"
  by code_simp

subsection \<open>Batch strategy\<close>

text \<open>
  Claim C4. Under the Batch strategy exactly one combined-commit request is issued for the
  whole plan. If it is answered with a success response, one outcome per operation of the
  plan is recorded, in order, naming the operation's path and kind, with status Success and
  no error text; if it is not (an error response or a rejected fetch), one outcome per
  operation is recorded, in order, naming the operation's path and kind, with status Failed,
  and all of them carry one and the same error text, the one of that answer.
\<close>

theorem batch_all_or_nothing:
  assumes "executeBatchUpdate pf net instance params plan result s = (result', s')"
  shows "snd s' = snd s @ [batch_request pf instance params plan]
       \<and> (answered_ok net (batch_request pf instance params plan) (fst s) \<longrightarrow>
            operations (details result')
              = operations (details result)
                @ map (\<lambda>file. \<lparr> o_file = path file, o_operation = operation file,
                               o_status = Success, o_error = None \<rparr>) plan
            \<and> succeeded result' = length plan \<and> failed result' = failed result)
       \<and> (\<not> answered_ok net (batch_request pf instance params plan) (fst s) \<longrightarrow>
            operations (details result')
              = operations (details result)
                @ map (\<lambda>file. \<lparr> o_file = path file, o_operation = operation file,
                               o_status = Failed,
                               o_error = Some (batch_error_text
                                 (fst (net (batch_request pf instance params plan) (fst s)))) \<rparr>)
                    plan
            \<and> failed result' = length plan \<and> succeeded result' = succeeded result)"
  using batch_run[OF assms] by simp

theorem batch_all_or_nothing_witness:
  "batch_request node_platform example_instance example_params batch_plan
     = BatchCommit example_endpoint
         [\<lparr> b_path = ''a.txt'', b_operation = BCreate, b_content = Some ''QQ=='', b_sha = None \<rparr>,
          \<lparr> b_path = ''b.txt'', b_operation = BUpdate, b_content = Some ''Qg=='',
            b_sha = Some ''sha-b2xk'' \<rparr>,
          \<lparr> b_path = ''c.txt'', b_operation = BCreate, b_content = Some ''Qw=='', b_sha = None \<rparr>]
         ''sync'' ''main''
   \<and> answered_ok (store_net same_path)
        (batch_request node_platform example_instance example_params batch_plan) batch_store
   \<and> snd (snd (executeBatchUpdate node_platform (store_net same_path) example_instance example_params
                  batch_plan empty_result (batch_store, [])))
       = [batch_request node_platform example_instance example_params batch_plan]
   \<and> operations (details (fst (executeBatchUpdate node_platform (store_net same_path) example_instance
                                  example_params batch_plan empty_result (batch_store, []))))
       = [\<lparr> o_file = ''a.txt'', o_operation = Add, o_status = Success, o_error = None \<rparr>,
          \<lparr> o_file = ''b.txt'', o_operation = Modify, o_status = Success, o_error = None \<rparr>,
          \<lparr> o_file = ''c.txt'', o_operation = Add, o_status = Success, o_error = None \<rparr>]
   \<and> \<not> answered_ok (store_net same_path)
          (batch_request node_platform example_instance example_params batch_plan) stale_store
   \<and> snd (snd (executeBatchUpdate node_platform (store_net same_path) example_instance example_params
                  batch_plan empty_result (stale_store, [])))
       = [batch_request node_platform example_instance example_params batch_plan]
   \<and> operations (details (fst (executeBatchUpdate node_platform (store_net same_path) example_instance
                                  example_params batch_plan empty_result (stale_store, []))))
       = [\<lparr> o_file = ''a.txt'', o_operation = Add, o_status = Failed,
            o_error = Some ''Batch operation failed: 422 Unprocessable Entity'' \<rparr>,
          \<lparr> o_file = ''b.txt'', o_operation = Modify, o_status = Failed,
            o_error = Some ''Batch operation failed: 422 Unprocessable Entity'' \<rparr>,
          \<lparr> o_file = ''c.txt'', o_operation = Add, o_status = Failed,
            o_error = Some ''Batch operation failed: 422 Unprocessable Entity'' \<rparr>]"
proof -
  have req: "batch_request node_platform example_instance example_params batch_plan
     = BatchCommit example_endpoint
         [\<lparr> b_path = ''a.txt'', b_operation = BCreate, b_content = Some ''QQ=='', b_sha = None \<rparr>,
          \<lparr> b_path = ''b.txt'', b_operation = BUpdate, b_content = Some ''Qg=='',
            b_sha = Some ''sha-b2xk'' \<rparr>,
          \<lparr> b_path = ''c.txt'', b_operation = BCreate, b_content = Some ''Qw=='', b_sha = None \<rparr>]
         ''sync'' ''main''"
    by (simp add: batch_request_def batch_plan_def batch_entry_def example_endpoint_def
          example_defs falsy_def node_to_base64)
  have good:
    "answered_ok (store_net same_path)
       (batch_request node_platform example_instance example_params batch_plan) batch_store"
    by (simp add: req answered_ok_def batch_store_def store_defs)
  have bad:
    "\<not> answered_ok (store_net same_path)
         (batch_request node_platform example_instance example_params batch_plan) stale_store"
    by (simp add: req answered_ok_def stale_store_def store_defs)
  have etext: "batch_error_text (fst (store_net same_path
        (batch_request node_platform example_instance example_params batch_plan) stale_store))
      = ''Batch operation failed: 422 Unprocessable Entity''"
    by (simp add: req batch_error_text_def stale_store_def store_defs string_of_nat_422)
  have e: "operations (details empty_result) = []"
    by (simp add: example_defs)
  have m1: "map (\<lambda>file. \<lparr> o_file = path file, o_operation = operation file,
                          o_status = Success, o_error = None \<rparr>) batch_plan
      = [\<lparr> o_file = ''a.txt'', o_operation = Add, o_status = Success, o_error = None \<rparr>,
         \<lparr> o_file = ''b.txt'', o_operation = Modify, o_status = Success, o_error = None \<rparr>,
         \<lparr> o_file = ''c.txt'', o_operation = Add, o_status = Success, o_error = None \<rparr>]"
    by (simp add: batch_plan_def file_op_def)
  have m2: "map (\<lambda>file. \<lparr> o_file = path file, o_operation = operation file,
                          o_status = Failed, o_error = Some e0 \<rparr>) batch_plan
      = [\<lparr> o_file = ''a.txt'', o_operation = Add, o_status = Failed, o_error = Some e0 \<rparr>,
         \<lparr> o_file = ''b.txt'', o_operation = Modify, o_status = Failed, o_error = Some e0 \<rparr>,
         \<lparr> o_file = ''c.txt'', o_operation = Add, o_status = Failed, o_error = Some e0 \<rparr>]"
    for e0
    by (simp add: batch_plan_def file_op_def)
  from batch_all_or_nothing[OF surjective_pairing, of node_platform "store_net same_path"
        example_instance example_params batch_plan empty_result "(batch_store, [])"] good e
  have c1: "snd (snd (executeBatchUpdate node_platform (store_net same_path) example_instance
                        example_params batch_plan empty_result (batch_store, [])))
       = [batch_request node_platform example_instance example_params batch_plan]
     \<and> operations (details (fst (executeBatchUpdate node_platform (store_net same_path)
                                  example_instance example_params batch_plan empty_result
                                  (batch_store, []))))
       = map (\<lambda>file. \<lparr> o_file = path file, o_operation = operation file,
                         o_status = Success, o_error = None \<rparr>) batch_plan"
    by simp
  from batch_all_or_nothing[OF surjective_pairing, of node_platform "store_net same_path"
        example_instance example_params batch_plan empty_result "(stale_store, [])"] bad e
  have c2: "snd (snd (executeBatchUpdate node_platform (store_net same_path) example_instance
                        example_params batch_plan empty_result (stale_store, [])))
       = [batch_request node_platform example_instance example_params batch_plan]
     \<and> operations (details (fst (executeBatchUpdate node_platform (store_net same_path)
                                  example_instance example_params batch_plan empty_result
                                  (stale_store, []))))
       = map (\<lambda>file. \<lparr> o_file = path file, o_operation = operation file,
                         o_status = Failed,
                         o_error = Some ''Batch operation failed: 422 Unprocessable Entity'' \<rparr>)
           batch_plan"
    by (simp add: etext)
  show ?thesis
    using req good bad c1 c2 by (simp only: m1 m2) simp
qed

subsection \<open>Strategy selection\<close>

text \<open>
  Claim C5. With the requested strategy \<^verbatim>\<open>auto\<close>, a plan of exactly one operation selects
  \<^verbatim>\<open>individual\<close>, a plan with a Delete selects \<^verbatim>\<open>individual\<close>, every other plan selects
  \<^verbatim>\<open>batch\<close>. An explicit \<^verbatim>\<open>batch\<close> or \<^verbatim>\<open>individual\<close> is returned as the chosen strategy;
  a chosen \<^verbatim>\<open>batch\<close> is carried out by the Individual executor when the plan has at most one
  operation and by the Batch executor otherwise.
\<close>

theorem strategy_selection:
  "determineStrategy ''auto'' plan =
     (if length plan = 1 then ''individual''
      else if (\<exists>f \<in> set plan. operation f = Delete) then ''individual''
      else ''batch'')
   \<and> determineStrategy ''batch'' plan = ''batch''
   \<and> determineStrategy ''individual'' plan = ''individual''
   \<and> (length plan \<le> 1 \<longrightarrow>
        execute pf net instance params ''batch'' plan result s
          = executeIndividualUpdates pf net instance params plan result s)
   \<and> (length plan > 1 \<longrightarrow>
        execute pf net instance params ''batch'' plan result s
          = executeBatchUpdate pf net instance params plan result s)
   \<and> execute pf net instance params ''individual'' plan result s
          = executeIndividualUpdates pf net instance params plan result s"
  by (simp add: determineStrategy_def execute_def list_ex_iff)

theorem strategy_selection_witness:
  "determineStrategy ''auto'' [file_op ''a.txt'' (Some ''A'') Add None] = ''individual''
   \<and> determineStrategy ''auto'' mixed_plan = ''individual''
   \<and> determineStrategy ''auto'' batch_plan = ''batch''
   \<and> determineStrategy ''auto'' [] = ''batch''
   \<and> determineStrategy ''batch'' mixed_plan = ''batch''
   \<and> length [file_op ''a.txt'' (Some ''A'') Add None] \<le> 1
   \<and> execute node_platform (store_net same_path) example_instance example_params ''batch''
        [file_op ''a.txt'' (Some ''A'') Add None] empty_result (Map.empty, [])
      = executeIndividualUpdates node_platform (store_net same_path) example_instance example_params
        [file_op ''a.txt'' (Some ''A'') Add None] empty_result (Map.empty, [])
   \<and> length batch_plan > 1
   \<and> execute node_platform (store_net same_path) example_instance example_params ''batch'' batch_plan empty_result
        (batch_store, [])
      = executeBatchUpdate node_platform (store_net same_path) example_instance example_params batch_plan empty_result
        (batch_store, [])"
  using strategy_selection[of "[file_op ''a.txt'' (Some ''A'') Add None]" node_platform
          "store_net same_path" example_instance example_params empty_result "(Map.empty, [])"]
        strategy_selection[of mixed_plan node_platform "store_net same_path" example_instance
          example_params empty_result "(Map.empty, [])"]
        strategy_selection[of batch_plan node_platform "store_net same_path" example_instance
          example_params empty_result "(batch_store, [])"]
        strategy_selection[of "[]" node_platform "store_net same_path" example_instance example_params
          empty_result "(Map.empty, [])"]
  by (simp add: mixed_plan_def batch_plan_def file_op_def)

subsection \<open>Individual strategy\<close>

lemma individual_step:
  "(if operation file = Delete
    then executeDeleteOperation net instance params file result s
    else executeCreateOrUpdateOperation pf net instance params file result s)
   = after_write file result (fetch net (write_request pf instance params file) s)"
  by (simp add: executeDeleteOperation_def executeCreateOrUpdateOperation_def write_request_def)

lemma count_failed_simps [simp]:
  "count_failed [] = 0"
  "count_failed (out # outs) = (if o_status out = Failed then 1 else 0) + count_failed outs"
  by (simp_all add: count_failed_def)

lemma individual_run:
  "executeIndividualUpdates pf net instance params plan result s = (result', s') \<Longrightarrow>
   snd s' = snd s @ map (write_request pf instance params) plan
   \<and> operations (details result') = operations (details result)
        @ map2 individual_outcome plan (answers net (map (write_request pf instance params) plan) (fst s))
   \<and> processed result' = processed result + length plan
   \<and> failed result' = failed result
        + count_failed (map2 individual_outcome plan
             (answers net (map (write_request pf instance params) plan) (fst s)))
   \<and> succeeded result' + failed result' = succeeded result + failed result + length plan
   \<and> skipped result' = skipped result
   \<and> conflicts (details result') = conflicts (details result)
   \<and> unchanged (details result') = unchanged (details result)
   \<and> discovered result' = discovered result
   \<and> analyzed result' = analyzed result
   \<and> needsUpdate result' = needsUpdate result"
proof (induction plan arbitrary: result s)
  case Nil
  then show ?case by simp
next
  case (Cons f0 plan)
  obtain a w1 where net: "net (write_request pf instance params f0) (fst s) = (a, w1)"
    by (cases "net (write_request pf instance params f0) (fst s)")
  let ?s1 = "(w1, snd s @ [write_request pf instance params f0])"
  have f: "fetch net (write_request pf instance params f0) s = (a, ?s1)"
    by (simp add: fetch_def net)
  obtain r2 where r2: "executeIndividualUpdates pf net instance params plan r2 ?s1 = (result', s')"
    and ops: "operations (details r2) = operations (details result) @ [individual_outcome f0 a]"
    and cnt: "failed r2 = failed result + (if o_status (individual_outcome f0 a) = Failed then 1 else 0)"
       "succeeded r2 + failed r2 = succeeded result + failed result + 1"
    and rest: "processed r2 = processed result + 1" "skipped r2 = skipped result"
       "conflicts (details r2) = conflicts (details result)"
       "unchanged (details r2) = unchanged (details result)"
       "discovered r2 = discovered result" "analyzed r2 = analyzed result"
       "needsUpdate r2 = needsUpdate result"
    using Cons.prems
    by (simp only: executeIndividualUpdates.simps Let_def individual_step f)
       (auto simp: after_write_def individual_outcome_def answer_ok_def
          individual_error_text_def success_outcome_def failed_outcome_def
          split: sum.splits if_splits)
  from Cons.IH[OF r2] cnt(2) show ?case
    by (simp add: ops rest cnt(1) net)
qed

text \<open>
  Claim C8. Under the Individual strategy every operation of the plan issues its own write
  request, in plan order, whatever happened to the operations before it; exactly one outcome
  is recorded per operation, and it is Failed precisely when the answer to that operation's
  own request is an error response or a rejected fetch. The executor returns a result in
  every case: what the per-file operations throw ends in the outcome list.
\<close>

theorem individual_failures_are_isolated:
  assumes "executeIndividualUpdates pf net instance params plan result s = (result', s')"
  shows "snd s' = snd s @ map (write_request pf instance params) plan
   \<and> operations (details result') = operations (details result)
        @ map2 individual_outcome plan (answers net (map (write_request pf instance params) plan) (fst s))
   \<and> processed result' = processed result + length plan
   \<and> failed result' = failed result
        + count_failed (map2 individual_outcome plan
             (answers net (map (write_request pf instance params) plan) (fst s)))
   \<and> succeeded result' + failed result' = succeeded result + failed result + length plan"
  using individual_run[OF assms] by simp

theorem individual_failures_are_isolated_witness:
  "snd (snd (executeIndividualUpdates node_platform (store_net same_path) example_instance
               example_params individual_plan empty_result (individual_store, [])))
     = [CreateFile example_endpoint ''b.txt'' ''Qg=='' ''sync'' ''main'',
        CreateFile example_endpoint ''a.txt'' ''QQ=='' ''sync'' ''main'',
        DeleteFile example_endpoint ''b.txt'' ''sync'' ''main'' (Some ''sha-gone''),
        UpdateFile example_endpoint ''c.txt'' ''Qw=='' ''sync'' ''main'' (Some ''sha-b2xk'')]
   \<and> operations (details (fst (executeIndividualUpdates node_platform (store_net same_path)
         example_instance example_params individual_plan empty_result (individual_store, []))))
     = [\<lparr> o_file = ''b.txt'', o_operation = Add, o_status = Failed,
          o_error = Some ''422: Unprocessable Entity'' \<rparr>,
        \<lparr> o_file = ''a.txt'', o_operation = Add, o_status = Success, o_error = None \<rparr>,
        \<lparr> o_file = ''b.txt'', o_operation = Delete, o_status = Failed,
          o_error = Some ''422: Unprocessable Entity'' \<rparr>,
        \<lparr> o_file = ''c.txt'', o_operation = Modify, o_status = Success, o_error = None \<rparr>]
   \<and> processed (fst (executeIndividualUpdates node_platform (store_net same_path) example_instance
         example_params individual_plan empty_result (individual_store, []))) = 4
   \<and> failed (fst (executeIndividualUpdates node_platform (store_net same_path) example_instance
         example_params individual_plan empty_result (individual_store, []))) = 2"
proof -
  have r: "map (write_request node_platform example_instance example_params) individual_plan
     = [CreateFile example_endpoint ''b.txt'' ''Qg=='' ''sync'' ''main'',
        CreateFile example_endpoint ''a.txt'' ''QQ=='' ''sync'' ''main'',
        DeleteFile example_endpoint ''b.txt'' ''sync'' ''main'' (Some ''sha-gone''),
        UpdateFile example_endpoint ''c.txt'' ''Qw=='' ''sync'' ''main'' (Some ''sha-b2xk'')]"
    by (simp add: individual_plan_def write_request_def example_endpoint_def example_defs
          node_to_base64)
  have a: "map2 individual_outcome individual_plan
             (answers (store_net same_path)
                (map (write_request node_platform example_instance example_params) individual_plan)
                individual_store)
     = [\<lparr> o_file = ''b.txt'', o_operation = Add, o_status = Failed,
          o_error = Some ''422: Unprocessable Entity'' \<rparr>,
        \<lparr> o_file = ''a.txt'', o_operation = Add, o_status = Success, o_error = None \<rparr>,
        \<lparr> o_file = ''b.txt'', o_operation = Delete, o_status = Failed,
          o_error = Some ''422: Unprocessable Entity'' \<rparr>,
        \<lparr> o_file = ''c.txt'', o_operation = Modify, o_status = Success, o_error = None \<rparr>]"
    unfolding r
    by (simp add: individual_plan_def individual_store_def individual_outcome_def answer_ok_def
          individual_error_text_def file_op_def store_defs string_of_nat_422)
  have e: "operations (details empty_result) = []" "failed empty_result = 0"
    "processed empty_result = 0"
    by (simp_all add: example_defs)
  have n: "length individual_plan = 4"
    by (simp add: individual_plan_def)
  show ?thesis
    using individual_failures_are_isolated[OF surjective_pairing, of node_platform "store_net same_path"
        example_instance example_params individual_plan empty_result "(individual_store, [])"]
    by (simp add: a e n) (simp add: r)
qed

subsection \<open>Change detection\<close>

lemma detect_file_acc:
  "detect_file pf net ep ref f0 (nu, rf) s =
     (case detect_file pf net ep ref f0 ([], rf) s of
        ((plan, rf'), s') \<Rightarrow> ((nu @ plan, rf'), s'))"
  by (simp add: detect_file_def Let_def split: prod.splits sum.splits option.splits)

lemma detect_loop_acc:
  "detect_loop pf net ep ref fs (nu, rf) s =
     (case detect_loop pf net ep ref fs ([], rf) s of
        ((plan, rf'), s') \<Rightarrow> ((nu @ plan, rf'), s'))"
proof (induction fs arbitrary: nu rf s)
  case Nil
  then show ?case by simp
next
  case (Cons f0 fs)
  obtain p1 rf1 s1 where d: "detect_file pf net ep ref f0 ([], rf) s = ((p1, rf1), s1)"
    by (metis surj_pair)
  have d': "detect_file pf net ep ref f0 (nu, rf) s = ((nu @ p1, rf1), s1)"
    by (subst detect_file_acc) (simp add: d)
  show ?case
    by (simp add: d d' Cons.IH[of "nu @ p1"] Cons.IH[of p1] split: prod.splits)
qed

lemma detect_loop_append:
  "detect_loop pf net ep ref (xs @ ys) acc s =
     (case detect_loop pf net ep ref xs acc s of (acc', s') \<Rightarrow> detect_loop pf net ep ref ys acc' s')"
  by (induction xs arbitrary: acc s) (simp_all split: prod.splits)

lemma detect_loop_trace:
  "detect_loop pf net ep ref fs acc s = (acc', s') \<Longrightarrow>
   snd s' = snd s @ map (\<lambda>f. GetContents ep (path f) ref) fs"
proof (induction fs arbitrary: acc s)
  case Nil
  then show ?case by simp
next
  case (Cons f0 fs)
  obtain acc1 s1 where d: "detect_file pf net ep ref f0 acc s = (acc1, s1)"
    by (metis surj_pair)
  then have "snd s1 = snd s @ [GetContents ep (path f0) ref]"
    by (auto simp: detect_file_def fetch_def Let_def split: prod.splits sum.splits option.splits if_splits)
  with Cons.IH[of acc1 s1] Cons.prems d show ?case by simp
qed

lemma not_found_step:
  assumes "net (GetContents ep (path f0) ref) (fst s) = (Inr response, w')"
    and "status response = 404"
  shows "detect_file pf net ep ref f0 (nu, rf) s =
     ((nu @ (if operation f0 = Add then [f0]
             else if operation f0 = Modify then [f0\<lparr> operation := Add, sha := None \<rparr>]
             else []), rf), (w', snd s @ [GetContents ep (path f0) ref]))"
  using assms by (simp add: detect_file_def fetch_def ok_def)

lemma deletes_not_found:
  "\<forall>f \<in> set fs. operation f = Delete \<Longrightarrow>
   probes_not_found net ep ref (map path fs) (fst s) \<Longrightarrow>
   \<exists>w'. detect_loop pf net ep ref fs acc s = (acc, (w', snd s @ map (\<lambda>f. GetContents ep (path f) ref) fs))"
proof (induction fs arbitrary: s)
  case Nil
  then show ?case by (cases s) simp
next
  case (Cons f0 fs)
  from Cons.prems(2) obtain response w1
    where n: "net (GetContents ep (path f0) ref) (fst s) = (Inr response, w1)"
      and st: "status response = 404"
      and rest: "probes_not_found net ep ref (map path fs) w1"
    by (auto split: prod.splits sum.splits)
  let ?s1 = "(w1, snd s @ [GetContents ep (path f0) ref])"
  have step: "detect_file pf net ep ref f0 acc s = (acc, ?s1)"
    using not_found_step[of net ep f0 ref s response w1 pf "fst acc" "snd acc"] n st Cons.prems(1)
    by simp
  from Cons.IH[of ?s1] Cons.prems(1) rest
  obtain w' where "detect_loop pf net ep ref fs acc ?s1
      = (acc, (w', snd ?s1 @ map (\<lambda>f. GetContents ep (path f) ref) fs))"
    by auto
  with step show ?case by simp
qed

lemma filter_is_write_probes [simp]:
  "filter is_write (map (\<lambda>f. GetContents ep (path f) ref) fs) = []"
  by (induction fs) simp_all

text \<open>
  Claim C6. With change detection on, a Modify operation whose probe is answered 404 is put
  into the plan at its position, reclassified to Add and with its version token cleared.
  Executed, it is a create call whose body has no version token: the per-file executor
  issues the POST of a create for it, the Individual strategy issues that request at the
  operation's position in the plan, and the one request of the Batch strategy files it as
  a create entry without sha.
\<close>

theorem modify_of_absent_becomes_add:
  assumes "detectChangesNeeded pf net ep ref xs s = ((before, rf1), s1)"
    and "operation f0 = Modify"
    and "net (GetContents ep (path f0) ref) (fst s1) = (Inr response, w2)"
    and "status response = 404"
  shows "(\<exists>after rf s3.
            detectChangesNeeded pf net ep ref (xs @ f0 # ys) s
              = ((before @ f0\<lparr> operation := Add, sha := None \<rparr> # after, rf), s3))
       \<and> write_request pf instance params (f0\<lparr> operation := Add, sha := None \<rparr>)
           = CreateFile (endpoint instance params) (path f0)
               (to_base64 pf (or_default (content f0) []))
               (render (p_message params)) (p_branch params)
       \<and> batch_entry pf (f0\<lparr> operation := Add, sha := None \<rparr>)
           = \<lparr> b_path = path f0, b_operation = BCreate,
               b_content = Some (to_base64 pf (or_default (content f0) [])), b_sha = None \<rparr>
       \<and> snd (snd (executeCreateOrUpdateOperation pf net' instance params
                      (f0\<lparr> operation := Add, sha := None \<rparr>) result t))
           = snd t @ [CreateFile (endpoint instance params) (path f0)
                        (to_base64 pf (or_default (content f0) []))
                        (render (p_message params)) (p_branch params)]
       \<and> snd (snd (executeIndividualUpdates pf net' instance params
                      (ps @ f0\<lparr> operation := Add, sha := None \<rparr> # qs) result t))
           = snd t @ map (write_request pf instance params) ps
               @ CreateFile (endpoint instance params) (path f0)
                   (to_base64 pf (or_default (content f0) []))
                   (render (p_message params)) (p_branch params)
               # map (write_request pf instance params) qs
       \<and> snd (snd (executeBatchUpdate pf net' instance params
                      (ps @ f0\<lparr> operation := Add, sha := None \<rparr> # qs) result t))
           = snd t @ [BatchCommit (endpoint instance params)
                        (map (batch_entry pf) ps
                         @ \<lparr> b_path = path f0, b_operation = BCreate,
                             b_content = Some (to_base64 pf (or_default (content f0) [])),
                             b_sha = None \<rparr>
                         # map (batch_entry pf) qs)
                        (render (p_message params)) (p_branch params)]"
proof -
  let ?g = "f0\<lparr> operation := Add, sha := None \<rparr>"
  let ?s2 = "(w2, snd s1 @ [GetContents ep (path f0) ref])"
  have step: "detect_file pf net ep ref f0 (before, rf1) s1 = ((before @ [?g], rf1), ?s2)"
    using not_found_step[of net ep f0 ref s1 response w2 pf before rf1] assms(2,3,4) by simp
  obtain after rf s3 where rest: "detect_loop pf net ep ref ys ([], rf1) ?s2 = ((after, rf), s3)"
    by (metis surj_pair)
  have det: "detectChangesNeeded pf net ep ref (xs @ f0 # ys) s = ((before @ ?g # after, rf), s3)"
    using assms(1) step rest
    by (simp add: detectChangesNeeded_def detect_loop_append
          detect_loop_acc[of pf net ep ref ys "before @ [?g]"])
  have wr: "write_request pf instance params ?g
      = CreateFile (endpoint instance params) (path f0)
          (to_base64 pf (or_default (content f0) []))
          (render (p_message params)) (p_branch params)"
    by (simp add: write_request_def)
  have be: "batch_entry pf ?g
      = \<lparr> b_path = path f0, b_operation = BCreate,
          b_content = Some (to_base64 pf (or_default (content f0) [])), b_sha = None \<rparr>"
    by (simp add: batch_entry_def)
  have one: "snd (snd (executeCreateOrUpdateOperation pf net' instance params ?g result t))
      = snd t @ [CreateFile (endpoint instance params) (path f0)
                   (to_base64 pf (or_default (content f0) []))
                   (render (p_message params)) (p_branch params)]"
    by (simp add: executeCreateOrUpdateOperation_def after_write_def fetch_def
          split: prod.splits sum.splits)
  have ind: "snd (snd (executeIndividualUpdates pf net' instance params (ps @ ?g # qs) result t))
      = snd t @ map (write_request pf instance params) ps
          @ CreateFile (endpoint instance params) (path f0)
              (to_base64 pf (or_default (content f0) []))
              (render (p_message params)) (p_branch params)
          # map (write_request pf instance params) qs"
    using individual_run[OF surjective_pairing, of pf net' "instance" params "ps @ ?g # qs" result t]
    by (simp add: wr)
  have bat: "snd (snd (executeBatchUpdate pf net' instance params (ps @ ?g # qs) result t))
      = snd t @ [BatchCommit (endpoint instance params)
                   (map (batch_entry pf) ps
                    @ \<lparr> b_path = path f0, b_operation = BCreate,
                        b_content = Some (to_base64 pf (or_default (content f0) [])),
                        b_sha = None \<rparr>
                    # map (batch_entry pf) qs)
                   (render (p_message params)) (p_branch params)]"
    using batch_run[OF surjective_pairing, of pf net' "instance" params "ps @ ?g # qs" result t]
    by (simp add: batch_request_def be)
  from det wr be one ind bat show ?thesis
    by blast
qed

theorem modify_of_absent_becomes_add_witness:
  "detectChangesNeeded node_platform (store_net same_path) example_endpoint ''main''
     [file_op ''b.txt'' (Some ''B'') Add None] (Map.empty, [])
     = (([file_op ''b.txt'' (Some ''B'') Add None], Map.empty),
        (Map.empty, [GetContents example_endpoint ''b.txt'' ''main'']))
   \<and> operation (file_op ''a.txt'' (Some ''X'') Modify (Some ''sha-stale'')) = Modify
   \<and> store_net same_path (GetContents example_endpoint
                      (path (file_op ''a.txt'' (Some ''X'') Modify (Some ''sha-stale''))) ''main'')
        Map.empty = (Inr (plain_response 404 ''Not Found''), Map.empty)
   \<and> status (plain_response 404 ''Not Found'') = 404
   \<and> (\<exists>after rf s3.
         detectChangesNeeded node_platform (store_net same_path) example_endpoint ''main''
           ([file_op ''b.txt'' (Some ''B'') Add None]
             @ file_op ''a.txt'' (Some ''X'') Modify (Some ''sha-stale'') # []) (Map.empty, [])
         = (([file_op ''b.txt'' (Some ''B'') Add None]
               @ file_op ''a.txt'' (Some ''X'') Add None # after, rf), s3))
   \<and> snd (snd (executeCreateOrUpdateOperation node_platform (store_net same_path) example_instance
                  example_params (file_op ''a.txt'' (Some ''X'') Add None) empty_result
                  (Map.empty, [])))
       = [CreateFile example_endpoint ''a.txt'' ''WA=='' ''sync'' ''main'']
   \<and> snd (snd (executeIndividualUpdates node_platform (store_net same_path) example_instance
                  example_params
                  ([file_op ''b.txt'' (Some ''B'') Add None]
                    @ file_op ''a.txt'' (Some ''X'') Add None # []) empty_result
                  (Map.empty, [])))
       = [CreateFile example_endpoint ''b.txt'' ''Qg=='' ''sync'' ''main'',
          CreateFile example_endpoint ''a.txt'' ''WA=='' ''sync'' ''main'']
   \<and> snd (snd (executeBatchUpdate node_platform (store_net same_path) example_instance
                  example_params
                  ([file_op ''b.txt'' (Some ''B'') Add None]
                    @ file_op ''a.txt'' (Some ''X'') Add None # []) empty_result
                  (Map.empty, [])))
       = [BatchCommit example_endpoint
            [\<lparr> b_path = ''b.txt'', b_operation = BCreate, b_content = Some ''Qg=='',
               b_sha = None \<rparr>,
             \<lparr> b_path = ''a.txt'', b_operation = BCreate, b_content = Some ''WA=='',
               b_sha = None \<rparr>]
            ''sync'' ''main'']
   \<and> sync_update node_platform (store_net same_path) [example_instance] same_content_args
        (Map.empty, [])
       = (Inr (ExecOutput True ''individual''
            \<lparr> discovered = 1, analyzed = 1, needsUpdate = 1, processed = 1, succeeded = 1,
              failed = 0, skipped = 0,
              details = \<lparr> operations = [\<lparr> o_file = ''a.txt'', o_operation = Add,
                                             o_status = Success, o_error = None \<rparr>],
                          conflicts = [], unchanged = [] \<rparr> \<rparr>
            \<lparr> d_repository = ''alice/demo'', d_branch = ''main'', d_commitMessage = ''sync'',
              d_operations = [\<lparr> o_file = ''a.txt'', o_operation = Add,
                                 o_status = Success, o_error = None \<rparr>],
              d_conflicts = None, d_unchanged = None \<rparr>),
          (stored_a, [GetContents example_endpoint ''a.txt'' ''main'',
                      CreateFile example_endpoint ''a.txt'' ''WA=='' ''sync'' ''main'']))"
proof -
  let ?b = "file_op ''b.txt'' (Some ''B'') Add None"
  let ?f = "file_op ''a.txt'' (Some ''X'') Modify (Some ''sha-stale'')"
  have h1: "detectChangesNeeded node_platform (store_net same_path) example_endpoint ''main''
       [?b] (Map.empty, [])
     = (([?b], Map.empty), (Map.empty, [GetContents example_endpoint ''b.txt'' ''main'']))"
    by (simp add: detectChangesNeeded_def detect_file_def fetch_def file_op_def store_defs)
  have h2: "operation ?f = Modify"
    by (simp add: file_op_def)
  have h3: "store_net same_path (GetContents example_endpoint (path ?f) ''main'')
        (fst (Map.empty :: store, [GetContents example_endpoint ''b.txt'' ''main'']))
        = (Inr (plain_response 404 ''Not Found''), Map.empty)"
    by simp
  have h4: "status (plain_response 404 ''Not Found'') = 404"
    by (simp add: plain_response_def)
  have upd: "?f\<lparr> operation := Add, sha := None \<rparr> = file_op ''a.txt'' (Some ''X'') Add None"
    by (simp add: file_op_def)
  have vals: "path ?f = ''a.txt''" "or_default (content ?f) [] = ''X''"
    "endpoint example_instance example_params = example_endpoint"
    "render (p_message example_params) = ''sync''" "p_branch example_params = ''main''"
    "write_request node_platform example_instance example_params ?b
       = CreateFile example_endpoint ''b.txt'' ''Qg=='' ''sync'' ''main''"
    "batch_entry node_platform ?b
       = \<lparr> b_path = ''b.txt'', b_operation = BCreate, b_content = Some ''Qg=='', b_sha = None \<rparr>"
    by (simp_all add: write_request_def batch_entry_def example_endpoint_def example_defs
          node_to_base64)
  have run: "sync_update node_platform (store_net same_path) [example_instance] same_content_args
        (Map.empty, [])
       = (Inr (ExecOutput True ''individual''
            \<lparr> discovered = 1, analyzed = 1, needsUpdate = 1, processed = 1, succeeded = 1,
              failed = 0, skipped = 0,
              details = \<lparr> operations = [\<lparr> o_file = ''a.txt'', o_operation = Add,
                                             o_status = Success, o_error = None \<rparr>],
                          conflicts = [], unchanged = [] \<rparr> \<rparr>
            \<lparr> d_repository = ''alice/demo'', d_branch = ''main'', d_commitMessage = ''sync'',
              d_operations = [\<lparr> o_file = ''a.txt'', o_operation = Add,
                                 o_status = Success, o_error = None \<rparr>],
              d_conflicts = None, d_unchanged = None \<rparr>),
          (stored_a, [GetContents example_endpoint ''a.txt'' ''main'',
                      CreateFile example_endpoint ''a.txt'' ''WA=='' ''sync'' ''main'']))"
    by (simp add: same_content_args_def stored_a_def example_endpoint_def handler_defs
          example_defs store_defs node_to_base64)
  show ?thesis
    using h1 h2 h3 h4 run
      modify_of_absent_becomes_add[OF h1 h2 h3 h4, of "[]" example_instance example_params
        "store_net same_path" empty_result "(Map.empty, [])" "[?b]" "[]"]
    by (simp add: upd vals node_to_base64)
qed

lemma example_validation:
  "basic_validation (make_params (example_args (f # fs) strat dry)) = None"
  "find (\<lambda>inst. Some (i_id inst) = instanceId (example_args fs strat dry)) [example_instance]
     = Some example_instance"
  "endpoint example_instance (make_params (example_args fs strat dry)) = example_endpoint"
  "p_branch (make_params (example_args fs strat dry)) = ''main''"
  by (simp_all add: basic_validation_def example_defs falsy_def example_endpoint_def)

text \<open>
  Claim C7. With change detection on, a Delete operation whose probe is answered 404 adds
  nothing to the plan: detection goes on with the plan it had before that file. When the
  whole input consists of such operations, a call that is not a dry run returns a summary
  with needsUpdate, succeeded and failed all 0, no outcome, the success flag set, and it
  issues no write request.
\<close>

theorem delete_of_absent_is_noop:
  "(detectChangesNeeded pf net ep ref xs s = ((before, rf1), s1)
      \<and> operation f0 = Delete
      \<and> net (GetContents ep (path f0) ref) (fst s1) = (Inr response, w2)
      \<and> status response = 404
    \<longrightarrow> detectChangesNeeded pf net ep ref (xs @ f0 # ys) s
          = detect_loop pf net ep ref ys (before, rf1) (w2, snd s1 @ [GetContents ep (path f0) ref]))
   \<and> (basic_validation (make_params args) = None
      \<and> find (\<lambda>inst. Some (i_id inst) = instanceId args) instances = Some instance
      \<and> validateAndNormalizeFiles (files args) = Inr normalizedFiles
      \<and> (\<forall>f \<in> set normalizedFiles. operation f = Delete)
      \<and> detectChanges args \<noteq> Some False
      \<and> dryRun args \<noteq> Some True
      \<and> probes_not_found net (endpoint instance (make_params args))
           (p_branch (make_params args)) (map path normalizedFiles) (fst t)
    \<longrightarrow> (\<exists>strat result d t'.
           sync_update pf net instances args t = (Inr (ExecOutput True strat result d), t')
           \<and> needsUpdate result = 0 \<and> succeeded result = 0 \<and> failed result = 0
           \<and> operations (details result) = []
           \<and> filter is_write (snd t') = filter is_write (snd t)))"
proof (intro conjI impI; (elim conjE)?)
  assume a: "detectChangesNeeded pf net ep ref xs s = ((before, rf1), s1)" "operation f0 = Delete"
    "net (GetContents ep (path f0) ref) (fst s1) = (Inr response, w2)" "status response = 404"
  have step: "detect_file pf net ep ref f0 (before, rf1) s1
      = ((before, rf1), (w2, snd s1 @ [GetContents ep (path f0) ref]))"
    using not_found_step[of net ep f0 ref s1 response w2 pf before rf1] a(2,3,4) by simp
  show "detectChangesNeeded pf net ep ref (xs @ f0 # ys) s
          = detect_loop pf net ep ref ys (before, rf1) (w2, snd s1 @ [GetContents ep (path f0) ref])"
    using a(1) step by (simp add: detectChangesNeeded_def detect_loop_append)
next
  assume b: "basic_validation (make_params args) = None"
    "find (\<lambda>inst. Some (i_id inst) = instanceId args) instances = Some instance"
    "validateAndNormalizeFiles (files args) = Inr normalizedFiles"
    "\<forall>f \<in> set normalizedFiles. operation f = Delete"
    "detectChanges args \<noteq> Some False" "dryRun args \<noteq> Some True"
    "probes_not_found net (endpoint instance (make_params args))
           (p_branch (make_params args)) (map path normalizedFiles) (fst t)"
  let ?p = "make_params args"
  from deletes_not_found[OF b(4) b(7), where acc = "([], Map.empty)" and pf = pf]
  obtain w' where d: "detectChangesNeeded pf net (endpoint instance ?p) (p_branch ?p) normalizedFiles t
      = (([], Map.empty), (w', snd t @ map (\<lambda>f. GetContents (endpoint instance ?p) (path f) (p_branch ?p)) normalizedFiles))"
    by (auto simp: detectChangesNeeded_def)
  have f: "p_instanceId ?p = instanceId args" "p_files ?p = files args"
    "p_detectChanges ?p" "\<not> p_dryRun ?p"
    using b(5,6) by (simp_all add: make_params_def)
  show "\<exists>strat result d t'.
           sync_update pf net instances args t = (Inr (ExecOutput True strat result d), t')
           \<and> needsUpdate result = 0 \<and> succeeded result = 0 \<and> failed result = 0
           \<and> operations (details result) = []
           \<and> filter is_write (snd t') = filter is_write (snd t)"
    using b(1,2,3) d f
    by (simp add: sync_update_def sync_update_body_def Let_def execute_def exec_output_def
          initial_result_def)
qed

theorem delete_of_absent_is_noop_witness:
  "detectChangesNeeded node_platform (store_net same_path) example_endpoint ''main'' [] (Map.empty, [])
      = (([], Map.empty), (Map.empty, []))
   \<and> operation (file_op ''b.txt'' None Delete None) = Delete
   \<and> (store_net same_path) (GetContents example_endpoint (path (file_op ''b.txt'' None Delete None)) ''main'')
        Map.empty = (Inr (plain_response 404 ''Not Found''), Map.empty)
   \<and> status (plain_response 404 ''Not Found'') = 404
   \<and> detectChangesNeeded node_platform (store_net same_path) example_endpoint ''main''
        ([] @ file_op ''b.txt'' None Delete None # []) (Map.empty, [])
      = (([], Map.empty), (Map.empty, [GetContents example_endpoint ''b.txt'' ''main'']))
   \<and> basic_validation (make_params delete_args) = None
   \<and> find (\<lambda>inst. Some (i_id inst) = instanceId delete_args) [example_instance]
        = Some example_instance
   \<and> validateAndNormalizeFiles (files delete_args) = Inr [file_op ''b.txt'' None Delete None]
   \<and> list_all (\<lambda>f. operation f = Delete) [file_op ''b.txt'' None Delete None]
   \<and> detectChanges delete_args \<noteq> Some False
   \<and> dryRun delete_args \<noteq> Some True
   \<and> probes_not_found (store_net same_path) (endpoint example_instance (make_params delete_args))
        (p_branch (make_params delete_args)) (map path [file_op ''b.txt'' None Delete None])
        Map.empty
   \<and> (\<exists>strat result d t'.
         sync_update node_platform (store_net same_path) [example_instance] delete_args (Map.empty, [])
           = (Inr (ExecOutput True strat result d), t')
         \<and> needsUpdate result = 0 \<and> succeeded result = 0 \<and> failed result = 0
         \<and> operations (details result) = []
         \<and> filter is_write (snd t') = [])"
proof -
  let ?f = "file_op ''b.txt'' None Delete None"
  have h1: "detectChangesNeeded node_platform (store_net same_path) example_endpoint ''main'' [] (Map.empty, [])
      = (([], Map.empty), (Map.empty, []))"
    by (simp add: detectChangesNeeded_def)
  have h2: "operation ?f = Delete"
    by (simp add: file_op_def)
  have h3: "(store_net same_path) (GetContents example_endpoint (path ?f) ''main'') (fst (Map.empty :: store, []))
      = (Inr (plain_response 404 ''Not Found''), Map.empty)"
    by simp
  have h4: "status (plain_response 404 ''Not Found'') = 404"
    by (simp add: plain_response_def)
  have g1: "basic_validation (make_params delete_args) = None"
    unfolding delete_args_def by (rule example_validation)
  have g2: "find (\<lambda>inst. Some (i_id inst) = instanceId delete_args) [example_instance]
        = Some example_instance"
    unfolding delete_args_def by (rule example_validation)
  have g3: "validateAndNormalizeFiles (files delete_args) = Inr [?f]"
    by (simp add: delete_args_def example_args_def raw_file_def file_op_def validate_file_def
          falsy_def or_default_def normalize_path_def startsWith_def)
  have g4: "\<forall>f \<in> set [?f]. operation f = Delete"
    by (simp add: file_op_def)
  have g5: "detectChanges delete_args \<noteq> Some False" and g6: "dryRun delete_args \<noteq> Some True"
    by (simp_all add: delete_args_def example_args_def)
  have g7: "probes_not_found (store_net same_path) (endpoint example_instance (make_params delete_args))
        (p_branch (make_params delete_args)) (map path [?f]) (fst (Map.empty :: store, []))"
    unfolding delete_args_def example_validation by (simp add: plain_response_def)
  have p: "path ?f = ''b.txt''"
    by (simp add: file_op_def)
  from delete_of_absent_is_noop[of node_platform "store_net same_path" example_endpoint "''main''" "[]" "(Map.empty, [])" "[]"
      Map.empty "(Map.empty, [])" ?f "plain_response 404 ''Not Found''" Map.empty "[]" delete_args
      "[example_instance]" example_instance "[?f]" "(Map.empty, [])"]
  have c1: "detectChangesNeeded node_platform (store_net same_path) example_endpoint ''main'' ([] @ ?f # []) (Map.empty, [])
      = (([], Map.empty), (Map.empty, [GetContents example_endpoint ''b.txt'' ''main'']))"
    and c2: "\<exists>strat result d t'.
         sync_update node_platform (store_net same_path) [example_instance] delete_args (Map.empty, [])
           = (Inr (ExecOutput True strat result d), t')
         \<and> needsUpdate result = 0 \<and> succeeded result = 0 \<and> failed result = 0
         \<and> operations (details result) = []
         \<and> filter is_write (snd t') = []"
    using h1 h2 h3 h4 g1 g2 g3 g4 g5 g6 g7 by (simp_all add: p)
  show ?thesis
    using h1 h2 h3 h4 g1 g2 g3 g4 g5 g6 g7 c1 c2 by simp
qed

subsection \<open>The handler as a whole\<close>

lemma sync_update_body_Inr:
  assumes "sync_update_body pf net insts args s = (Inr out, s')"
  obtains inst normalizedFiles plan remoteFiles s1 where
    "basic_validation (make_params args) = None"
    "find (\<lambda>inst. Some (i_id inst) = instanceId args) insts = Some inst"
    "validateAndNormalizeFiles (files args) = Inr normalizedFiles"
    "plan_phase pf net inst (make_params args) normalizedFiles s = ((plan, remoteFiles), s1)"
    "p_dryRun (make_params args) \<Longrightarrow>
       out = dry_run_output (determineStrategy (p_strategy (make_params args)) plan)
               (initial_result (make_params args) normalizedFiles plan) plan \<and> s' = s1"
    "\<not> p_dryRun (make_params args) \<Longrightarrow>
       \<exists>result'. execute pf net inst (make_params args)
                    (determineStrategy (p_strategy (make_params args)) plan) plan
                    (initial_result (make_params args) normalizedFiles plan) s1 = (result', s')
                \<and> out = exec_output (make_params args)
                          (determineStrategy (p_strategy (make_params args)) plan) result'"
proof -
  have f: "p_instanceId (make_params args) = instanceId args"
    "p_files (make_params args) = files args"
    by (simp_all add: make_params_def)
  from assms show ?thesis
    unfolding sync_update_body_def Let_def plan_phase_def[symmetric] f
    by (auto split: option.splits sum.splits prod.splits if_splits intro!: that)
qed

lemma sync_update_body_total:
  assumes "basic_validation (make_params args) = None"
    "find (\<lambda>inst. Some (i_id inst) = instanceId args) instances = Some instance"
    "validateAndNormalizeFiles (files args) = Inr normalizedFiles"
    "plan_phase pf net instance (make_params args) normalizedFiles s = ((plan, remoteFiles), s1)"
  shows "sync_update_body pf net instances args s =
     (if p_dryRun (make_params args)
      then (Inr (dry_run_output (determineStrategy (p_strategy (make_params args)) plan)
               (initial_result (make_params args) normalizedFiles plan) plan), s1)
      else (case execute pf net instance (make_params args)
                    (determineStrategy (p_strategy (make_params args)) plan) plan
                    (initial_result (make_params args) normalizedFiles plan) s1 of
              (result', s2) \<Rightarrow>
                (Inr (exec_output (make_params args)
                       (determineStrategy (p_strategy (make_params args)) plan) result'), s2)))"
proof -
  have f: "p_instanceId (make_params args) = instanceId args"
    "p_files (make_params args) = files args"
    by (simp_all add: make_params_def)
  from assms show ?thesis
    unfolding sync_update_body_def Let_def plan_phase_def[symmetric] f
    by simp
qed

lemma sync_update_Inr:
  "sync_update pf net instances args s = (Inr out, s')
   \<longleftrightarrow> sync_update_body pf net instances args s = (Inr out, s')"
  by (auto simp: sync_update_def split: prod.splits sum.splits)

lemma execute_keeps:
  assumes "execute pf net instance params strat plan result s = (result', s')"
  shows "skipped result' = skipped result
       \<and> conflicts (details result') = conflicts (details result)
       \<and> unchanged (details result') = unchanged (details result)
       \<and> discovered result' = discovered result
       \<and> analyzed result' = analyzed result
       \<and> needsUpdate result' = needsUpdate result"
proof (cases "strat = ''batch'' \<and> length plan > 1")
  case True
  with assms have "executeBatchUpdate pf net instance params plan result s = (result', s')"
    by (simp add: execute_def)
  from batch_run[OF this] show ?thesis by simp
next
  case False
  with assms have "executeIndividualUpdates pf net instance params plan result s = (result', s')"
    by (auto simp add: execute_def)
  from individual_run[OF this] show ?thesis by simp
qed


lemma add_rerun:
  "sync_update node_platform (store_net same_path) [example_instance] add_args (stored_a, [])
   = (Inr (ExecOutput False ''individual''
        \<lparr> discovered = 1, analyzed = 1, needsUpdate = 1, processed = 1, succeeded = 0,
          failed = 1, skipped = 0,
          details = \<lparr> operations = [\<lparr> o_file = ''a.txt'', o_operation = Add,
                         o_status = Failed, o_error = Some ''422: Unprocessable Entity'' \<rparr>],
                      conflicts = [], unchanged = [] \<rparr> \<rparr>
        \<lparr> d_repository = ''alice/demo'', d_branch = ''main'', d_commitMessage = ''sync'',
          d_operations = [\<lparr> o_file = ''a.txt'', o_operation = Add,
                         o_status = Failed, o_error = Some ''422: Unprocessable Entity'' \<rparr>],
          d_conflicts = None, d_unchanged = None \<rparr>),
      (stored_a, [GetContents example_endpoint ''a.txt'' ''main'',
                  CreateFile example_endpoint ''a.txt'' ''WA=='' ''sync'' ''main'']))"
  by (simp add: add_args_def stored_a_def example_endpoint_def handler_defs example_defs store_defs
        string_of_nat_422 node_to_base64)

lemma same_content_run:
  "sync_update node_platform (store_net same_path) [example_instance] same_content_args (stored_a, [])
   = (Inr (ExecOutput True ''batch''
        \<lparr> discovered = 1, analyzed = 1, needsUpdate = 0, processed = 0, succeeded = 0,
          failed = 0, skipped = 0,
          details = \<lparr> operations = [], conflicts = [], unchanged = [] \<rparr> \<rparr>
        \<lparr> d_repository = ''alice/demo'', d_branch = ''main'', d_commitMessage = ''sync'',
          d_operations = [], d_conflicts = None, d_unchanged = None \<rparr>),
      (stored_a, [GetContents example_endpoint ''a.txt'' ''main'']))"
  by (simp add: same_content_args_def stored_a_def example_endpoint_def handler_defs example_defs
        store_defs node_from_base64)


text \<open>
  Claim C10. In every summary that sync\_update returns, dry run or execution, whatever the
  strategy and the input, the \<^verbatim>\<open>skipped\<close> counter is 0 and the \<^verbatim>\<open>conflicts\<close> list is empty;
  the conflicts entry of the response details is therefore always left out.
\<close>

theorem skipped_and_conflicts_stay_empty:
  assumes "sync_update pf net insts args s = (Inr out, s')"
  shows "skipped (summary out) = 0
       \<and> conflicts (details (summary out)) = []
       \<and> (\<forall>flag strat result d. out = ExecOutput flag strat result d \<longrightarrow> d_conflicts d = None)"
proof -
  from assms have "sync_update_body pf net insts args s = (Inr out, s')"
    by (simp add: sync_update_Inr)
  then show ?thesis
  proof (rule sync_update_body_Inr)
    fix inst normalizedFiles plan remoteFiles s1
    let ?p = "make_params args"
    let ?strat = "determineStrategy (p_strategy ?p) plan"
    let ?r0 = "initial_result ?p normalizedFiles plan"
    assume dry: "p_dryRun ?p \<Longrightarrow> out = dry_run_output ?strat ?r0 plan \<and> s' = s1"
      and wet: "\<not> p_dryRun ?p \<Longrightarrow>
        \<exists>result'. execute pf net inst ?p ?strat plan ?r0 s1 = (result', s')
                \<and> out = exec_output ?p ?strat result'"
    show ?thesis
    proof (cases "p_dryRun ?p")
      case True
      with dry show ?thesis
        by (simp add: dry_run_output_def initial_result_def)
    next
      case False
      with wet obtain result' where e: "execute pf net inst ?p ?strat plan ?r0 s1 = (result', s')"
        and o: "out = exec_output ?p ?strat result'"
        by auto
      from execute_keeps[OF e] show ?thesis
        by (simp add: o exec_output_def initial_result_def)
    qed
  qed
qed



theorem skipped_and_conflicts_stay_empty_witness:
  "sync_update node_platform (store_net same_path) [example_instance] add_args (stored_a, [])
     = (Inr (ExecOutput False ''individual''
        \<lparr> discovered = 1, analyzed = 1, needsUpdate = 1, processed = 1, succeeded = 0,
          failed = 1, skipped = 0,
          details = \<lparr> operations = [\<lparr> o_file = ''a.txt'', o_operation = Add,
                         o_status = Failed, o_error = Some ''422: Unprocessable Entity'' \<rparr>],
                      conflicts = [], unchanged = [] \<rparr> \<rparr>
        \<lparr> d_repository = ''alice/demo'', d_branch = ''main'', d_commitMessage = ''sync'',
          d_operations = [\<lparr> o_file = ''a.txt'', o_operation = Add,
                         o_status = Failed, o_error = Some ''422: Unprocessable Entity'' \<rparr>],
          d_conflicts = None, d_unchanged = None \<rparr>),
      (stored_a, [GetContents example_endpoint ''a.txt'' ''main'',
                  CreateFile example_endpoint ''a.txt'' ''WA=='' ''sync'' ''main'']))
   \<and> skipped (summary (ExecOutput False ''individual''
        \<lparr> discovered = 1, analyzed = 1, needsUpdate = 1, processed = 1, succeeded = 0,
          failed = 1, skipped = 0,
          details = \<lparr> operations = [\<lparr> o_file = ''a.txt'', o_operation = Add,
                         o_status = Failed, o_error = Some ''422: Unprocessable Entity'' \<rparr>],
                      conflicts = [], unchanged = [] \<rparr> \<rparr>
        \<lparr> d_repository = ''alice/demo'', d_branch = ''main'', d_commitMessage = ''sync'',
          d_operations = [\<lparr> o_file = ''a.txt'', o_operation = Add,
                         o_status = Failed, o_error = Some ''422: Unprocessable Entity'' \<rparr>],
          d_conflicts = None, d_unchanged = None \<rparr>)) = 0"
  using skipped_and_conflicts_stay_empty[OF add_rerun] add_rerun by simp

subsection \<open>Reporting of unchanged files\<close>

text \<open>
  The two halves of the property, in general. A Modify whose probe is answered with a file
  of the very content supplied adds nothing to the plan (its snapshot is recorded in
  \<^verbatim>\<open>remoteFiles\<close>, which the handler never reads). And the \<^verbatim>\<open>unchanged\<close> list of a summary
  is empty in every output of the handler.
\<close>

lemma identical_modify_is_dropped:
  assumes "detectChangesNeeded pf net ep ref xs s = ((before, rf1), s1)"
    and "operation f0 = Modify"
    and "net (GetContents ep (path f0) ref) (fst s1) = (Inr response, w2)"
    and "ok response"
    and "json_body response = Some (remoteSha, remoteBase64)"
    and "content f0 = Some (from_base64 pf remoteBase64)"
  shows "detectChangesNeeded pf net ep ref (xs @ f0 # ys) s
     = detect_loop pf net ep ref ys
         (before, rf1(path f0 \<mapsto>
            \<lparr> rf_sha = remoteSha, rf_content = from_base64 pf remoteBase64, rf_path = path f0 \<rparr>))
         (w2, snd s1 @ [GetContents ep (path f0) ref])"
proof -
  have "detect_file pf net ep ref f0 (before, rf1) s1
      = ((before, rf1(path f0 \<mapsto>
            \<lparr> rf_sha = remoteSha, rf_content = from_base64 pf remoteBase64, rf_path = path f0 \<rparr>)),
         (w2, snd s1 @ [GetContents ep (path f0) ref]))"
    using assms(2-6) by (simp add: detect_file_def fetch_def Let_def)
  with assms(1) show ?thesis
    by (simp add: detectChangesNeeded_def detect_loop_append)
qed

lemma unchanged_stays_empty:
  assumes "sync_update pf net instances args s = (Inr out, s')"
  shows "unchanged (details (summary out)) = []
       \<and> (\<forall>flag strat result d. out = ExecOutput flag strat result d \<longrightarrow> d_unchanged d = None)"
proof -
  from assms have "sync_update_body pf net instances args s = (Inr out, s')"
    by (simp add: sync_update_Inr)
  then show ?thesis
  proof (rule sync_update_body_Inr)
    fix inst normalizedFiles plan remoteFiles s1
    let ?p = "make_params args"
    let ?strat = "determineStrategy (p_strategy ?p) plan"
    let ?r0 = "initial_result ?p normalizedFiles plan"
    assume dry: "p_dryRun ?p \<Longrightarrow> out = dry_run_output ?strat ?r0 plan \<and> s' = s1"
      and wet: "\<not> p_dryRun ?p \<Longrightarrow>
        \<exists>result'. execute pf net inst ?p ?strat plan ?r0 s1 = (result', s')
                \<and> out = exec_output ?p ?strat result'"
    show ?thesis
    proof (cases "p_dryRun ?p")
      case True
      with dry show ?thesis
        by (simp add: dry_run_output_def initial_result_def)
    next
      case False
      with wet obtain result' where e: "execute pf net inst ?p ?strat plan ?r0 s1 = (result', s')"
        and o: "out = exec_output ?p ?strat result'"
        by auto
      from execute_keeps[OF e] show ?thesis
        by (simp add: o exec_output_def initial_result_def)
    qed
  qed
qed

text \<open>
  Claim C2. A Modify whose content equals the stored remote content is left out of the plan,
  and the claim has its path in the \<^verbatim>\<open>unchanged\<close> list of the summary. On the store that
  holds \<^verbatim>\<open>a.txt\<close> with content \<^verbatim>\<open>X\<close>, the call that modifies \<^verbatim>\<open>a.txt\<close> to \<^verbatim>\<open>X\<close> plans nothing
  and writes nothing, but its \<^verbatim>\<open>unchanged\<close> list is empty and the response carries no
  \<^verbatim>\<open>unchanged\<close> entry: the run below is what the handler returns.
\<close>

theorem identical_modify_is_not_reported:
  "sync_update node_platform (store_net same_path) [example_instance] same_content_args (stored_a, [])
   = (Inr (ExecOutput True ''batch''
        \<lparr> discovered = 1, analyzed = 1, needsUpdate = 0, processed = 0, succeeded = 0,
          failed = 0, skipped = 0,
          details = \<lparr> operations = [], conflicts = [], unchanged = [] \<rparr> \<rparr>
        \<lparr> d_repository = ''alice/demo'', d_branch = ''main'', d_commitMessage = ''sync'',
          d_operations = [], d_conflicts = None, d_unchanged = None \<rparr>),
      (stored_a, [GetContents example_endpoint ''a.txt'' ''main'']))"
  by (fact same_content_run)

subsection \<open>Validation failures\<close>

text \<open>
  Whatever makes the handler fail as a whole does so before the first request, and the
  error that leaves the handler has the category \<^verbatim>\<open>EXTERNAL_API_ERROR\<close>: nothing inside the
  \<^verbatim>\<open>try\<close> block throws a \<^verbatim>\<open>ZodError\<close>, the only case its \<^verbatim>\<open>catch\<close> maps to
  \<^verbatim>\<open>VALIDATION_ERROR\<close>.
\<close>

lemma hard_failure_before_network:
  assumes "sync_update pf net instances args s = (Inl e, s')"
  shows "s' = s \<and> code e = EXTERNAL_API_ERROR"
proof -
  have nz: "\<And>ms. validateAndNormalizeFiles fs \<noteq> Inl (ZodError ms)" for fs
    by (induction fs) (auto simp: validate_file_def Let_def split: sum.splits if_splits)
  obtain t where b: "sync_update_body pf net instances args s = (Inl t, s')" and e: "e = surface t"
    using assms by (auto simp: sync_update_def split: prod.splits sum.splits)
  from b have "s' = s \<and> (\<forall>ms. t \<noteq> ZodError ms)"
    using nz
    by (auto simp: sync_update_body_def Let_def basic_validation_def
        split: option.splits sum.splits prod.splits if_splits)
  then show ?thesis
    using e by (cases t) simp_all
qed

text \<open>
  Claim C3. An input that fails the engine's validation (a parent-traversal path, content
  missing for a modify, an unknown operation kind) makes the call fail before any request
  is issued, and the claim has the surfaced error carry the category ValidationError. The
  call does fail without a request, in any world and over any network; the category of the
  surfaced error is \<^verbatim>\<open>EXTERNAL_API_ERROR\<close> in all three cases, also for the path, which the
  normalizer itself rejects with \<^verbatim>\<open>VALIDATION_ERROR\<close>.
\<close>

theorem validation_failure_category:
  "validateAndNormalizeFiles (files bad_path_args)
     = Inl (AppErr VALIDATION_ERROR ''Invalid file path: ../secret.txt'')
   \<and> sync_update pf net [example_instance] bad_path_args s
     = (Inl (AppError EXTERNAL_API_ERROR
              ''Failed to sync update files: Invalid file path: ../secret.txt''), s)
   \<and> sync_update pf net [example_instance] no_content_args s
     = (Inl (AppError EXTERNAL_API_ERROR
              ''Failed to sync update files: Content is required for modify operation on file: a.txt''), s)
   \<and> sync_update pf net [example_instance] bad_kind_args s
     = (Inl (AppError EXTERNAL_API_ERROR
              ''Failed to sync update files: Invalid operation: rename. Must be add, modify, or delete''), s)"
  by (simp add: bad_path_args_def no_content_args_def bad_kind_args_def handler_defs example_defs)

subsection \<open>Dry run\<close>

lemma length_answers [simp]: "length (answers net reqs w) = length reqs"
  by (induction reqs arbitrary: w) (simp_all split: prod.splits)

lemma targets_individual:
  "concat (map request_targets (map (write_request pf instance params) plan)) = plan_targets plan"
proof (induction plan)
  case Nil
  then show ?case by (simp add: plan_targets_def)
next
  case (Cons f0 plan)
  have "request_targets (write_request pf instance params f0) = [(path f0, operation f0)]"
    by (cases "operation f0") (simp_all add: write_request_def)
  with Cons show ?case by (simp add: plan_targets_def)
qed

lemma targets_batch:
  "request_targets (batch_request pf instance params plan) = plan_targets plan"
proof -
  have "batch_kind_op (b_operation (batch_entry pf f0)) = operation f0 \<and> b_path (batch_entry pf f0) = path f0"
    for f0
    by (cases "operation f0") (simp_all add: batch_entry_def)
  then show ?thesis
    by (simp add: batch_request_def plan_targets_def)
qed

lemma outcome_targets_individual:
  "length as = length plan \<Longrightarrow> outcome_targets (map2 individual_outcome plan as) = plan_targets plan"
proof (induction plan arbitrary: as)
  case Nil
  then show ?case by (simp add: outcome_targets_def plan_targets_def)
next
  case (Cons f0 plan)
  then obtain a as' where as: "as = a # as'" by (cases as) auto
  have "o_file (individual_outcome f0 a) = path f0
      \<and> o_operation (individual_outcome f0 a) = operation f0"
    by (simp add: individual_outcome_def)
  with Cons as show ?case by (simp add: outcome_targets_def plan_targets_def)
qed

lemma execute_covers_plan:
  assumes "execute pf net instance params strat plan result s = (result', s')"
    and "operations (details result) = []"
  shows "outcome_targets (operations (details result')) = plan_targets plan
       \<and> (\<exists>writes. snd s' = snd s @ writes \<and> concat (map request_targets writes) = plan_targets plan)"
proof (cases "strat = ''batch'' \<and> length plan > 1")
  case True
  with assms have "executeBatchUpdate pf net instance params plan result s = (result', s')"
    by (simp add: execute_def)
  from batch_run[OF this] assms(2) have
    tr: "snd s' = snd s @ [batch_request pf instance params plan]"
    and "outcome_targets (operations (details result')) = plan_targets plan"
    by (cases "answered_ok net (batch_request pf instance params plan) (fst s)";
        simp add: outcome_targets_def plan_targets_def o_def)+
  then show ?thesis
    by (simp add: targets_batch)
next
  case False
  with assms have "executeIndividualUpdates pf net instance params plan result s = (result', s')"
    by (auto simp add: execute_def)
  from individual_run[OF this] assms(2) targets_individual[where plan = plan]
  show ?thesis
    by (simp add: outcome_targets_individual)
qed

lemma plan_phase_trace:
  "plan_phase pf net instance params nf s = (pr, s1) \<Longrightarrow>
   \<exists>probes. snd s1 = snd s @ probes \<and> filter is_write probes = []"
  by (auto simp: plan_phase_def detectChangesNeeded_def dest!: detect_loop_trace split: if_splits)

lemma make_params_dryRun:
  "make_params (args\<lparr> dryRun := d \<rparr>) = (make_params args)\<lparr> p_dryRun := (d = Some True) \<rparr>"
  by (simp add: make_params_def)

lemma dryRun_irrelevant [simp]:
  "basic_validation (params\<lparr> p_dryRun := x \<rparr>) = basic_validation params"
  "endpoint instance (params\<lparr> p_dryRun := x \<rparr>) = endpoint instance params"
  "plan_phase pf net instance (params\<lparr> p_dryRun := x \<rparr>) nf s = plan_phase pf net instance params nf s"
  "initial_result (params\<lparr> p_dryRun := x \<rparr>) nf plan = initial_result params nf plan"
  by (simp_all add: basic_validation_def endpoint_def plan_phase_def initial_result_def)

lemma body_failure_dryRun:
  "sync_update_body pf net instances args s = (Inl e, s') \<Longrightarrow>
   sync_update_body pf net instances (args\<lparr> dryRun := d \<rparr>) s = (Inl e, s')"
  unfolding sync_update_body_def Let_def plan_phase_def[symmetric] make_params_dryRun
  by (auto split: option.splits sum.splits prod.splits if_splits)


lemma dry_run_output_targets:
  "reported_targets (filesNeedingUpdate (dry_run_output strat result plan)) = plan_targets plan"
  "outcome_targets (operations (details (summary (dry_run_output strat result plan)))) = plan_targets plan"
  "strategy_of (dry_run_output strat result plan) = strat"
  "needsUpdate (summary (dry_run_output strat result plan)) = needsUpdate result"
  by (simp_all add: dry_run_output_def reported_targets_def plan_targets_def outcome_targets_def)

text \<open>
  Claim C9. A call with \<^verbatim>\<open>dryRun\<close> set issues no write request (create, update, delete or
  combined commit), and the plan it reports is the plan that the same call without
  \<^verbatim>\<open>dryRun\<close> executes from the same state of the world: that call makes the same probes,
  chooses the same strategy, and the write requests it then issues touch exactly the
  reported files with the reported kinds, in the reported order; its outcome list names
  the same files. A dry run that fails fails in the same way without \<^verbatim>\<open>dryRun\<close>.
\<close>

theorem dry_run_writes_nothing_and_reports_the_plan:
  assumes "dryRun args = Some True"
    and "sync_update pf net instances args s = (r, s')"
  shows "filter is_write (snd s') = filter is_write (snd s)
       \<and> (\<forall>e. r = Inl e \<longrightarrow>
             sync_update pf net instances (args\<lparr> dryRun := Some False \<rparr>) s = (Inl e, s'))
       \<and> (\<forall>out. r = Inr out \<longrightarrow>
             outcome_targets (operations (details (summary out)))
               = reported_targets (filesNeedingUpdate out)
             \<and> (\<exists>out' s'' writes.
                   sync_update pf net instances (args\<lparr> dryRun := Some False \<rparr>) s = (Inr out', s'')
                   \<and> snd s'' = snd s' @ writes
                   \<and> concat (map request_targets writes) = reported_targets (filesNeedingUpdate out)
                   \<and> outcome_targets (operations (details (summary out')))
                       = reported_targets (filesNeedingUpdate out)
                   \<and> needsUpdate (summary out') = needsUpdate (summary out)
                   \<and> strategy_of out' = strategy_of out))"
proof (cases r)
  case (Inl e)
  then obtain t where b: "sync_update_body pf net instances args s = (Inl t, s')" and e: "e = surface t"
    using assms(2) by (auto simp: sync_update_def split: prod.splits sum.splits)
  from hard_failure_before_network[of pf net instances args s e s'] assms(2) Inl
  have "s' = s" by simp
  moreover have "sync_update pf net instances (args\<lparr> dryRun := Some False \<rparr>) s = (Inl e, s')"
    using body_failure_dryRun[OF b, of "Some False"] e by (simp add: sync_update_def)
  ultimately show ?thesis using Inl by simp
next
  case (Inr out)
  with assms(2) have "sync_update_body pf net instances args s = (Inr out, s')"
    by (simp add: sync_update_Inr)
  then show ?thesis
  proof (rule sync_update_body_Inr)
    fix inst normalizedFiles plan remoteFiles s1
    let ?p = "make_params args"
    let ?args' = "args\<lparr> dryRun := Some False \<rparr>"
    let ?p' = "make_params ?args'"
    let ?strat = "determineStrategy (p_strategy ?p) plan"
    let ?r0 = "initial_result ?p normalizedFiles plan"
    assume v: "basic_validation ?p = None"
      "find (\<lambda>i. Some (i_id i) = instanceId args) instances = Some inst"
      "validateAndNormalizeFiles (files args) = Inr normalizedFiles"
      and pp: "plan_phase pf net inst ?p normalizedFiles s = ((plan, remoteFiles), s1)"
      and dry: "p_dryRun ?p \<Longrightarrow> out = dry_run_output ?strat ?r0 plan \<and> s' = s1"
    have d: "p_dryRun ?p" "\<not> p_dryRun ?p'" "p_strategy ?p' = p_strategy ?p"
      using assms(1) by (simp_all add: make_params_def)
    have p': "?p' = ?p\<lparr> p_dryRun := False \<rparr>"
      by (simp add: make_params_dryRun)
    from dry d have out: "out = dry_run_output ?strat ?r0 plan" and s': "s' = s1"
      by simp_all
    from plan_phase_trace[OF pp] have nowrite: "filter is_write (snd s') = filter is_write (snd s)"
      by (auto simp: s')
    obtain result' s'' where ex: "execute pf net inst ?p' ?strat plan ?r0 s1 = (result', s'')"
      by (metis surj_pair)
    have r0: "operations (details ?r0) = []"
      by (simp add: initial_result_def)
    from execute_covers_plan[OF ex r0] obtain writes where
      cov: "outcome_targets (operations (details result')) = plan_targets plan"
        "snd s'' = snd s1 @ writes" "concat (map request_targets writes) = plan_targets plan"
      by auto
    from execute_keeps[OF ex] have nu: "needsUpdate result' = needsUpdate ?r0"
      by simp
    have wet: "sync_update pf net instances ?args' s = (Inr (exec_output ?p' ?strat result'), s'')"
      using sync_update_body_total[of ?args' instances inst normalizedFiles pf net s plan remoteFiles s1]
        v pp d ex
      by (simp add: p' sync_update_def)
    show ?thesis
      using Inr nowrite wet cov nu
      by (simp add: out s' dry_run_output_targets exec_output_def)
  qed
qed


lemma dry_run_example:
  "sync_update node_platform (store_net same_path) [example_instance] dry_args (Map.empty, [])
   = (Inr dry_out, (Map.empty, [GetContents example_endpoint ''a.txt'' ''main'',
                                GetContents example_endpoint ''b.txt'' ''main'']))"
  by (simp add: dry_args_def dry_out_def example_endpoint_def handler_defs example_defs store_defs)

theorem dry_run_writes_nothing_and_reports_the_plan_witness:
  "dryRun dry_args = Some True
   \<and> sync_update node_platform (store_net same_path) [example_instance] dry_args (Map.empty, [])
       = (Inr dry_out, (Map.empty, [GetContents example_endpoint ''a.txt'' ''main'',
                                    GetContents example_endpoint ''b.txt'' ''main'']))
   \<and> filter is_write [GetContents example_endpoint ''a.txt'' ''main'',
                        GetContents example_endpoint ''b.txt'' ''main''] = []
   \<and> (\<exists>out' s'' writes.
         sync_update node_platform (store_net same_path) [example_instance] (dry_args\<lparr> dryRun := Some False \<rparr>) (Map.empty, [])
           = (Inr out', s'')
         \<and> snd s'' = [GetContents example_endpoint ''a.txt'' ''main'',
                       GetContents example_endpoint ''b.txt'' ''main''] @ writes
         \<and> concat (map request_targets writes) = [(''a.txt'', Add), (''b.txt'', Add)]
         \<and> outcome_targets (operations (details (summary out'))) = [(''a.txt'', Add), (''b.txt'', Add)]
         \<and> needsUpdate (summary out') = 2
         \<and> strategy_of out' = ''batch'')"
proof -
  have h1: "dryRun dry_args = Some True"
    by (simp add: dry_args_def example_args_def)
  have t: "reported_targets (filesNeedingUpdate dry_out) = [(''a.txt'', Add), (''b.txt'', Add)]"
    "needsUpdate (summary dry_out) = 2" "strategy_of dry_out = ''batch''"
    by (simp_all add: dry_out_def reported_targets_def)
  show ?thesis
    using h1 dry_run_example
      dry_run_writes_nothing_and_reports_the_plan[OF h1 dry_run_example]
    by (simp add: t)
qed

subsection \<open>Re-running a call\<close>
























end
